theory Spec2Isabelle
  imports Main "HOL-Library.AList"
begin

section \<open>Strings\<close>

text \<open>
  The converter is TypeScript. A string is modelled as the list of its UTF-16 code units,
  each a natural number, so that \<open>length\<close>, \<open>substring\<close> and the regular expressions of
  the source count what JavaScript counts. \<open>str\<close> embeds an ASCII literal.
\<close>

type_synonym jsstring = "nat list"

definition str :: "string \<Rightarrow> jsstring" where
  "str s = map of_char s"

text \<open>White space as \<open>String.prototype.trim\<close> and the regular-expression class \<open>\s\<close> see it.\<close>

definition isWhite :: "nat \<Rightarrow> bool" where
  "isWhite c = (c \<in> {9, 10, 11, 12, 13, 32, 160, 5760, 8232, 8233, 8239, 8287, 12288, 65279}
                \<or> (8192 \<le> c \<and> c \<le> 8202))"

definition isDigit :: "nat \<Rightarrow> bool" where
  "isDigit c = (48 \<le> c \<and> c \<le> 57)"

definition isLowerAZ :: "nat \<Rightarrow> bool" where
  "isLowerAZ c = (97 \<le> c \<and> c \<le> 122)"

definition trim :: "jsstring \<Rightarrow> jsstring" where
  "trim s = rev (dropWhile isWhite (rev (dropWhile isWhite s)))"

text \<open>
  \<open>toLowerCase\<close>: the ASCII capitals, and the two code units beyond ASCII whose lower case
  contains an ASCII letter (U+0130 and the Kelvin sign U+212A). Every other code unit is
  kept; JavaScript maps some of them to other code units beyond ASCII, which no comparison
  of this program tells apart, all of them being against ASCII text.
\<close>

definition lowerUnit :: "nat \<Rightarrow> jsstring" where
  "lowerUnit c = (if 65 \<le> c \<and> c \<le> 90 then [c + 32]
                  else if c = 304 then [105, 775]
                  else if c = 8490 then [107]
                  else [c])"

definition toLowerCase :: "jsstring \<Rightarrow> jsstring" where
  "toLowerCase s = concat (map lowerUnit s)"

text \<open>\<open>s.includes(sub)\<close>.\<close>

fun strIncludes :: "jsstring \<Rightarrow> jsstring \<Rightarrow> bool" where
  "strIncludes [] sub = (sub = [])"
| "strIncludes (c # cs) sub = (take (length sub) (c # cs) = sub \<or> strIncludes cs sub)"

text \<open>\<open>parts.join(sep)\<close>.\<close>

fun joinWith :: "jsstring \<Rightarrow> jsstring list \<Rightarrow> jsstring" where
  "joinWith sep [] = []"
| "joinWith sep [x] = x"
| "joinWith sep (x # y # ys) = x @ sep @ joinWith sep (y # ys)"

text \<open>
  \<open>s.replace(/P+/g, r)\<close> for a class \<open>P\<close> of code units: every maximal run of \<open>P\<close> becomes
  the single unit \<open>r\<close>, which is written when the last unit of the run is reached.
\<close>

fun squeeze :: "(nat \<Rightarrow> bool) \<Rightarrow> nat \<Rightarrow> jsstring \<Rightarrow> jsstring" where
  "squeeze P r [] = []"
| "squeeze P r [c] = (if P c then [r] else [c])"
| "squeeze P r (c # d # cs) =
     (if P c then (if P d then squeeze P r (d # cs) else r # squeeze P r (d # cs))
      else c # squeeze P r (d # cs))"

text \<open>
  \<open>s.replace(/\s*D\s*/g, '-')\<close> for a dash \<open>D\<close>: white space before a dash is held back in
  \<open>pend\<close> and dropped when the dash arrives; \<open>skip\<close> says that a dash has just been
  replaced, so that the white space after it is dropped too.
\<close>

fun replaceAround :: "nat \<Rightarrow> jsstring \<Rightarrow> bool \<Rightarrow> jsstring \<Rightarrow> jsstring" where
  "replaceAround d pend skip [] = pend"
| "replaceAround d pend skip (c # cs) =
     (if c = d then 45 # replaceAround d [] True cs
      else if isWhite c then
        (if skip then replaceAround d [] True cs else replaceAround d (pend @ [c]) False cs)
      else pend @ c # replaceAround d [] False cs)"

section \<open>Numbers\<close>

text \<open>
  A JavaScript number is an IEEE 754 double. A finite one is \<open>Fin m e\<close>, the value
  \<open>m * 2 ^ e\<close>, kept in lowest terms (\<open>m\<close> odd, or \<open>m = 0\<close> and \<open>e = 0\<close>), so that equal
  numbers are equal terms; the two zeros are one value, which no operation used here
  tells apart. \<open>Inf neg\<close> is the infinity of that sign.
\<close>

datatype jsnum = NaN | Inf bool | Fin int int

fun bitLen :: "int \<Rightarrow> int" where
  "bitLen n = (if n \<le> 0 then 0 else 1 + bitLen (n div 2))"

declare bitLen.simps [simp del]

function normDyadic :: "int \<Rightarrow> int \<Rightarrow> int \<times> int" where
  "normDyadic m e =
     (if m = 0 then (0, 0) else if even m then normDyadic (m div 2) (e + 1) else (m, e))"
  by pat_completeness auto
termination
  by (relation "measure (\<lambda>(m, e). nat \<bar>m\<bar>)") auto

declare normDyadic.simps [simp del]

text \<open>A fraction \<open>(p, q)\<close> with \<open>0 < q\<close> is the rational \<open>p / q\<close>; \<open>mulPow b x\<close> multiplies it by \<open>b ^ x\<close>.\<close>

definition mulPow :: "int \<Rightarrow> int \<Rightarrow> int \<times> int \<Rightarrow> int \<times> int" where
  "mulPow b x pq =
     (if 0 \<le> x then (fst pq * b ^ nat x, snd pq) else (fst pq, snd pq * b ^ nat (- x)))"

text \<open>\<open>ilog2 a q\<close> is the integer part of the binary logarithm of \<open>a / q\<close>, for \<open>0 < a\<close>.\<close>

definition ilog2 :: "int \<Rightarrow> int \<Rightarrow> int" where
  "ilog2 a q =
     (if snd (mulPow 2 (bitLen q - bitLen a) (a, q)) \<le> fst (mulPow 2 (bitLen q - bitLen a) (a, q))
      then bitLen a - bitLen q else bitLen a - bitLen q - 1)"

definition roundHalfEven :: "int \<times> int \<Rightarrow> int" where
  "roundHalfEven nd =
     (if 2 * (fst nd mod snd nd) < snd nd then fst nd div snd nd
      else if snd nd < 2 * (fst nd mod snd nd) then fst nd div snd nd + 1
      else if even (fst nd div snd nd) then fst nd div snd nd
      else fst nd div snd nd + 1)"

text \<open>
  The double nearest to a fraction, ties to the even significand: the significand has 53
  bits, the exponent of its last bit is at least \<open>-1074\<close>, and a value that rounds to
  \<open>2 ^ 1024\<close> or more is infinite.
\<close>

definition packDouble :: "bool \<Rightarrow> int \<Rightarrow> int \<Rightarrow> jsnum" where
  "packDouble neg e m =
     (if 971 < e \<or> (e = 971 \<and> m = 2 ^ 53) then Inf neg
      else Fin (if neg then - fst (normDyadic m e) else fst (normDyadic m e))
               (snd (normDyadic m e)))"

definition roundAt :: "bool \<Rightarrow> int \<times> int \<Rightarrow> int \<Rightarrow> jsnum" where
  "roundAt neg aq e = packDouble neg e (roundHalfEven (mulPow 2 (- e) aq))"

definition roundFrac :: "int \<times> int \<Rightarrow> jsnum" where
  "roundFrac pq =
     (if fst pq = 0 then Fin 0 0
      else roundAt (fst pq < 0) (\<bar>fst pq\<bar>, snd pq)
             (max (- 1074) (ilog2 \<bar>fst pq\<bar> (snd pq) - 52)))"

definition fracOf :: "int \<Rightarrow> int \<Rightarrow> int \<times> int" where
  "fracOf m e = mulPow 2 e (m, 1)"

text \<open>
  The arithmetic the program does: a number and a positive integer constant
  (\<open>x + 5\<close>, \<open>x / 10\<close>, \<open>x * 10\<close>, \<open>x - 1\<close>), each result rounded to a double.
\<close>

definition jsAdd :: "jsnum \<Rightarrow> int \<Rightarrow> jsnum" where
  "jsAdd x c = (case x of
     Fin m e \<Rightarrow> roundFrac (fst (fracOf m e) + c * snd (fracOf m e), snd (fracOf m e))
   | _ \<Rightarrow> x)"

definition jsSub :: "jsnum \<Rightarrow> int \<Rightarrow> jsnum" where
  "jsSub x c = (case x of
     Fin m e \<Rightarrow> roundFrac (fst (fracOf m e) - c * snd (fracOf m e), snd (fracOf m e))
   | _ \<Rightarrow> x)"

definition jsMul :: "jsnum \<Rightarrow> int \<Rightarrow> jsnum" where
  "jsMul x c = (case x of
     Fin m e \<Rightarrow> roundFrac (fst (fracOf m e) * c, snd (fracOf m e))
   | _ \<Rightarrow> x)"

definition jsDiv :: "jsnum \<Rightarrow> int \<Rightarrow> jsnum" where
  "jsDiv x c = (case x of
     Fin m e \<Rightarrow> roundFrac (fst (fracOf m e), snd (fracOf m e) * c)
   | _ \<Rightarrow> x)"

definition mathFloor :: "jsnum \<Rightarrow> jsnum" where
  "mathFloor x = (case x of
     Fin m e \<Rightarrow> Fin (fst (normDyadic (fst (fracOf m e) div snd (fracOf m e)) 0))
                   (snd (normDyadic (fst (fracOf m e) div snd (fracOf m e)) 0))
   | _ \<Rightarrow> x)"

definition isNaN :: "jsnum \<Rightarrow> bool" where
  "isNaN x = (x = NaN)"

text \<open>\<open>x <= 0\<close>.\<close>

definition leqZero :: "jsnum \<Rightarrow> bool" where
  "leqZero x = (case x of NaN \<Rightarrow> False | Inf neg \<Rightarrow> neg | Fin m e \<Rightarrow> m \<le> 0)"

text \<open>\<open>Math.max(0, x)\<close>.\<close>

definition mathMax0 :: "jsnum \<Rightarrow> jsnum" where
  "mathMax0 x = (case x of NaN \<Rightarrow> NaN | Inf neg \<Rightarrow> (if neg then Fin 0 0 else x)
                 | Fin m e \<Rightarrow> (if m < 0 then Fin 0 0 else x))"

text \<open>\<open>Number.isInteger(x)\<close>: in lowest terms, a finite value is whole when \<open>0 \<le> e\<close>.\<close>

definition isInteger :: "jsnum \<Rightarrow> bool" where
  "isInteger x = (case x of Fin m e \<Rightarrow> 0 \<le> e | _ \<Rightarrow> False)"

subsection \<open>Reading a number: \<open>parseFloat\<close>\<close>

text \<open>
  \<open>parseFloat\<close> skips leading white space and reads the longest prefix that is a decimal
  literal: a sign, then \<open>Infinity\<close> or digits with an optional fraction and an optional
  exponent. The value read is rounded to the nearest double.
\<close>

definition digitsVal :: "jsstring \<Rightarrow> int" where
  "digitsVal ds = foldl (\<lambda>a d. 10 * a + (int d - 48)) 0 ds"

definition fractionDigits :: "jsstring \<Rightarrow> jsstring" where
  "fractionDigits r = (case r of [] \<Rightarrow> [] | c # r1 \<Rightarrow> if c = 46 then takeWhile isDigit r1 else [])"

definition afterMantissa :: "jsstring \<Rightarrow> jsstring" where
  "afterMantissa r = (case r of [] \<Rightarrow> [] | c # r1 \<Rightarrow> if c = 46 then dropWhile isDigit r1 else r)"

definition expDigits :: "jsstring \<Rightarrow> jsstring" where
  "expDigits r = (case r of [] \<Rightarrow> [] | c # r1 \<Rightarrow>
     if c = 101 \<or> c = 69 then
       (case r1 of [] \<Rightarrow> []
        | s # r2 \<Rightarrow> if s = 43 \<or> s = 45 then takeWhile isDigit r2 else takeWhile isDigit r1)
     else [])"

definition expNegative :: "jsstring \<Rightarrow> bool" where
  "expNegative r = (case r of c # s # _ \<Rightarrow> (c = 101 \<or> c = 69) \<and> s = 45 | _ \<Rightarrow> False)"

definition exponentPart :: "jsstring \<Rightarrow> int" where
  "exponentPart r = (if expNegative r then - digitsVal (expDigits r) else digitsVal (expDigits r))"

definition parseDecimal :: "bool \<Rightarrow> jsstring \<Rightarrow> jsstring \<Rightarrow> jsnum" where
  "parseDecimal neg ip r =
     (if ip = [] \<and> fractionDigits r = [] then NaN
      else roundFrac (mulPow 10 (exponentPart (afterMantissa r) - int (length (fractionDigits r)))
             (if neg then - digitsVal (ip @ fractionDigits r) else digitsVal (ip @ fractionDigits r), 1)))"

definition parseUnsigned :: "bool \<Rightarrow> jsstring \<Rightarrow> jsnum" where
  "parseUnsigned neg r =
     (if take 8 r = str ''Infinity'' then Inf neg
      else parseDecimal neg (takeWhile isDigit r) (dropWhile isDigit r))"

definition parseFloat :: "jsstring \<Rightarrow> jsnum" where
  "parseFloat s = (case dropWhile isWhite s of [] \<Rightarrow> NaN
     | c # r \<Rightarrow> if c = 43 then parseUnsigned False r
               else if c = 45 then parseUnsigned True r
               else parseUnsigned False (c # r))"

subsection \<open>Writing a number: \<open>String(x)\<close>\<close>

text \<open>
  \<open>String(x)\<close> writes the decimal with the fewest significant digits that reads back as
  \<open>x\<close>, the nearest to \<open>x\<close> if there are several, in plain digits below \<open>10 ^ 21\<close> and in
  exponent form from there on. The program renders only whole numbers, infinities and
  never a fraction (\<open>cleanPrice\<close> asks \<open>Number.isInteger\<close> first, \<open>roundToNearest9\<close> renders
  a floor times ten minus one), so \<open>numToString\<close> is given for those: on a finite value
  that is not whole it is the empty string, a case no call reaches.
\<close>

function digitsOf :: "int \<Rightarrow> jsstring" where
  "digitsOf n = (if n < 10 then [nat n + 48] else digitsOf (n div 10) @ [nat (n mod 10) + 48])"
  by pat_completeness auto
termination
  by (relation "measure nat") auto

declare digitsOf.simps [simp del]

text \<open>
  \<open>pickBetween x V u lo\<close>: of the two multiples of \<open>u\<close> around \<open>V\<close>, \<open>lo\<close> and \<open>lo + u\<close>, the
  one that reads back as \<open>x\<close>; the nearer to \<open>V\<close> if both do, the even multiple on a tie.
\<close>

definition pickBetween :: "jsnum \<Rightarrow> int \<Rightarrow> int \<Rightarrow> int \<Rightarrow> int option" where
  "pickBetween x V u lo =
     (if roundFrac (lo, 1) = x then
        (if roundFrac (lo + u, 1) = x \<and>
            (lo + u - V < V - lo \<or> (lo + u - V = V - lo \<and> odd (lo div u)))
         then Some (lo + u) else Some lo)
      else if roundFrac (lo + u, 1) = x then Some (lo + u)
      else None)"

fun shortestFrom :: "jsnum \<Rightarrow> int \<Rightarrow> nat list \<Rightarrow> int" where
  "shortestFrom x V [] = V"
| "shortestFrom x V (j # js) =
     (case pickBetween x V (10 ^ j) ((V div 10 ^ j) * 10 ^ j) of
        Some c \<Rightarrow> c
      | None \<Rightarrow> shortestFrom x V js)"

text \<open>The numbers of trailing zeros to try, most first: \<open>n - 1\<close> down to \<open>n - k\<close>, not below \<open>0\<close>.\<close>

fun countdown :: "nat \<Rightarrow> nat \<Rightarrow> nat list" where
  "countdown n k = (if n = 0 \<or> k = 0 then [] else (n - 1) # countdown (n - 1) (k - 1))"

declare countdown.simps [simp del]

definition shortestInt :: "jsnum \<Rightarrow> int \<Rightarrow> int" where
  "shortestInt x V = shortestFrom x V (countdown (length (digitsOf V)) 17)"

definition expForm :: "jsstring \<Rightarrow> jsstring \<Rightarrow> jsstring" where
  "expForm ds sig =
     hd sig # (if tl sig = [] then [] else 46 # tl sig) @ str ''e+'' @ digitsOf (int (length ds) - 1)"

definition renderInt :: "int \<Rightarrow> jsstring" where
  "renderInt c =
     (if c < 10 ^ 21 then digitsOf c
      else expForm (digitsOf c) (rev (dropWhile (\<lambda>d. d = 48) (rev (digitsOf c)))))"

definition numToString :: "jsnum \<Rightarrow> jsstring" where
  "numToString x = (case x of
       NaN \<Rightarrow> str ''NaN''
     | Inf neg \<Rightarrow> (if neg then str ''-Infinity'' else str ''Infinity'')
     | Fin m e \<Rightarrow>
         if e < 0 then []
         else if m = 0 then str ''0''
         else if m < 0 then 45 # renderInt (shortestInt (Fin (- m) e) (- m * 2 ^ nat e))
         else renderInt (shortestInt x (m * 2 ^ nat e)))"

section \<open>Prices\<close>

definition isPriceChar :: "nat \<Rightarrow> bool" where
  "isPriceChar c = (isDigit c \<or> c = 46 \<or> c = 45)"

definition cleanDigits :: "jsstring \<Rightarrow> jsstring" where
  "cleanDigits s2 =
     (if s2 = [] then []
      else if isInteger (parseFloat s2) then numToString (parseFloat s2)
      else s2)"

text \<open>The argument is a cell of a record, a string or \<open>undefined\<close> (\<open>None\<close>).\<close>

definition cleanPrice :: "jsstring option \<Rightarrow> jsstring" where
  "cleanPrice x = (case x of
       None \<Rightarrow> []
     | Some raw \<Rightarrow> if trim raw = [] then [] else cleanDigits (filter isPriceChar (trim raw)))"

definition nearest9 :: "jsnum \<Rightarrow> jsnum" where
  "nearest9 p = mathMax0 (jsSub (jsMul (mathFloor (jsDiv (jsAdd p 5) 10)) 10) 1)"

definition roundToNearest9 :: "jsstring \<Rightarrow> jsstring" where
  "roundToNearest9 priceStr =
     (if priceStr = [] \<or> trim priceStr = [] then []
      else if isNaN (parseFloat priceStr) \<or> leqZero (parseFloat priceStr) then priceStr
      else numToString (nearest9 (parseFloat priceStr)))"

section \<open>The template and the output rows\<close>

definition TEMPLATE_COLS :: "jsstring list" where
  "TEMPLATE_COLS = map str
    [''Title'', ''URL handle'', ''Description'', ''Vendor'', ''Product category'', ''Type'', ''Tags'',
     ''Published on online store'', ''Status'', ''SKU'', ''Barcode'',
     ''Option1 name'', ''Option1 value'', ''Option2 name'', ''Option2 value'',
     ''Option3 name'', ''Option3 value'',
     ''Price'', ''Compare-at price'', ''Cost per item'', ''Charge tax'', ''Tax code'',
     ''Unit price total measure'', ''Unit price total measure unit'',
     ''Unit price base measure'', ''Unit price base measure unit'',
     ''Inventory tracker'', ''Variant Inventory Policy'', ''Inventory policy'',
     ''Continue selling when out of stock'', ''Inventory quantity'',
     ''Weight value (grams)'', ''Weight unit for display'', ''Requires shipping'',
     ''Fulfillment service'',
     ''Product image URL'', ''Image position'', ''Image alt text'', ''Variant image URL'',
     ''Gift card'',
     ''SEO title'', ''SEO description'',
     ''Google Shopping / Google product category'', ''Google Shopping / Gender'',
     ''Google Shopping / Age group'',
     ''Google Shopping / MPN'', ''Google Shopping / AdWords Grouping'',
     ''Google Shopping / AdWords labels'',
     ''Google Shopping / Condition'', ''Google Shopping / Custom product'',
     ''Google Shopping / Custom label 0'', ''Google Shopping / Custom label 1'',
     ''Google Shopping / Custom label 2'', ''Google Shopping / Custom label 3'',
     ''Google Shopping / Custom label 4'',
     ''Fabric'', ''Wash Care'', ''Material'', ''Shelf'', ''Test'',
     ''Variant Image'', ''Variant Weight Unit'', ''Variant Tax Code'', ''Shelf No'', ''Sizes'']"

text \<open>
  A value written into an output row is text, or the number of an image position. An
  output row is the object \<open>out\<close> of the source, as the list of its keys and values in the
  order the keys were first written; \<open>setField\<close> is \<open>out[k] = v\<close>.
\<close>

datatype cell = Str jsstring | Num nat

type_synonym outrow = "(jsstring \<times> cell) list"

definition blankRow :: outrow where
  "blankRow = map (\<lambda>c. (c, Str [])) TEMPLATE_COLS"

definition setField :: "jsstring \<Rightarrow> cell \<Rightarrow> outrow \<Rightarrow> outrow" where
  "setField k v out = AList.update k v out"

fun assign :: "(jsstring \<times> cell) list \<Rightarrow> outrow \<Rightarrow> outrow" where
  "assign [] out = out"
| "assign ((k, v) # kvs) out = assign kvs (setField k v out)"

text \<open>\<open>out[k]\<close> as the writer of the file reads it: a key that is absent gives the empty text.\<close>

definition getField :: "outrow \<Rightarrow> jsstring \<Rightarrow> cell" where
  "getField out k = (case map_of out k of None \<Rightarrow> Str [] | Some v \<Rightarrow> v)"

section \<open>Helper functions of the converter\<close>

definition isSlugChar :: "nat \<Rightarrow> bool" where
  "isSlugChar c = (isLowerAZ c \<or> isDigit c \<or> isWhite c \<or> c = 45)"

text \<open>\<open>t.replace(/^-|-$/g, "")\<close>: one dash off the front, then one off the end of what is left.\<close>

definition stripDashEnds :: "jsstring \<Rightarrow> jsstring" where
  "stripDashEnds t =
     (if t \<noteq> [] \<and> hd t = 45
      then (if tl t \<noteq> [] \<and> last (tl t) = 45 then butlast (tl t) else tl t)
      else (if t \<noteq> [] \<and> last t = 45 then butlast t else t))"

definition slugify :: "jsstring \<Rightarrow> jsstring" where
  "slugify text =
     stripDashEnds (squeeze (\<lambda>c. c = 45) 45 (squeeze isWhite 45
       (filter isSlugChar (toLowerCase (trim text)))))"

definition rowHasTitle :: "jsstring list \<Rightarrow> bool" where
  "rowHasTitle row =
     list_ex (\<lambda>v. v = str ''title'' \<or> strIncludes v (str ''title''))
       (map (\<lambda>x. toLowerCase (trim x)) row)"

fun scanHeader :: "nat \<Rightarrow> jsstring list list \<Rightarrow> nat option" where
  "scanHeader i [] = None"
| "scanHeader i (r # rs) = (if rowHasTitle r then Some i else scanHeader (i + 1) rs)"

definition detectHeaderRow :: "jsstring list list \<Rightarrow> nat \<Rightarrow> nat" where
  "detectHeaderRow data maxRows =
     (case scanHeader 0 (take (min maxRows (length data)) data) of None \<Rightarrow> 0 | Some i \<Rightarrow> i)"

subsection \<open>\<open>findColByNames\<close>\<close>

definition normalizeName :: "jsstring \<Rightarrow> jsstring" where
  "normalizeName s = filter (\<lambda>c. isLowerAZ c \<or> isDigit c) (toLowerCase s)"

definition stripSpaces :: "jsstring \<Rightarrow> jsstring" where
  "stripSpaces s = filter (\<lambda>c. \<not> isWhite c) s"

text \<open>
  \<open>colsNorm[key]\<close>: the table is filled column by column, a later column with the same
  normalised name replacing an earlier one, so the entry of a key is the last such column.
\<close>

definition colsNorm :: "jsstring list \<Rightarrow> jsstring \<Rightarrow> jsstring option" where
  "colsNorm cols key = find (\<lambda>c. normalizeName c = key) (rev cols)"

fun exactMatch :: "jsstring list \<Rightarrow> jsstring list \<Rightarrow> jsstring option" where
  "exactMatch cols [] = None"
| "exactMatch cols (name # names) =
     (case colsNorm cols (normalizeName name) of
        Some c \<Rightarrow> if c \<noteq> [] then Some c else exactMatch cols names
      | None \<Rightarrow> exactMatch cols names)"

fun substringMatch :: "jsstring list \<Rightarrow> jsstring list \<Rightarrow> jsstring option" where
  "substringMatch cols [] = None"
| "substringMatch cols (name # names) =
     (case find (\<lambda>c. strIncludes (stripSpaces (toLowerCase c)) (stripSpaces (toLowerCase name))) cols of
        Some c \<Rightarrow> Some c
      | None \<Rightarrow> substringMatch cols names)"

definition findColByNames :: "jsstring list \<Rightarrow> jsstring list \<Rightarrow> jsstring option" where
  "findColByNames cols names =
     (case exactMatch cols names of Some c \<Rightarrow> Some c | None \<Rightarrow> substringMatch cols names)"

subsection \<open>Image and size columns\<close>

definition detectImageColumns :: "jsstring list \<Rightarrow> jsstring list" where
  "detectImageColumns cols =
     filter (\<lambda>c. strIncludes (toLowerCase c) (str ''product image'')
               \<or> strIncludes (toLowerCase c) (str ''image'')
               \<or> strIncludes (toLowerCase c) (str ''image url'')) cols"

definition sizeCandidates :: "jsstring list" where
  "sizeCandidates = map str
    [''NB'', ''0-2M'', ''2-4M'', ''4-6M'', ''0-3M'', ''3-6M'', ''6-9M'', ''6-12M'', ''9-12M'',
     ''12-18M'', ''18-24M'',
     ''1-2Y'', ''2-3Y'', ''3-4Y'', ''4-5Y'', ''5-6Y'', ''One Size'', ''S'', ''M'', ''L'', ''XL'', ''XXL'']"

text \<open>
  A regular expression with the flag \<open>i\<close> compares code units after \<open>canonUnit\<close>: an ASCII
  letter in upper case; a code unit beyond ASCII never becomes an ASCII one.
\<close>

definition canonUnit :: "nat \<Rightarrow> nat" where
  "canonUnit c = (if isLowerAZ c then c - 32 else c)"

text \<open>\<open>new RegExp('^\\s*' + escaped(sc) + '\\s*$', 'i').test(t)\<close>.\<close>

definition matchesCandidate :: "jsstring \<Rightarrow> jsstring \<Rightarrow> bool" where
  "matchesCandidate sc t = (map canonUnit (trim t) = map canonUnit sc)"

text \<open>
  \<open>/\d+\s*[-]?\s*\d*\s*[my]$/i.test(t)\<close>, read from the end of \<open>t\<close>: the last unit is
  \<open>m\<close> or \<open>y\<close>; before it, after white space, comes a digit (then the optional parts are
  empty or digits), or a dash that follows, after white space, a digit.
\<close>

definition sizeSuffix :: "jsstring \<Rightarrow> bool" where
  "sizeSuffix t =
     (t \<noteq> [] \<and> canonUnit (last t) \<in> {77, 89} \<and>
      (case dropWhile isWhite (rev (butlast t)) of
         [] \<Rightarrow> False
       | c # r \<Rightarrow> isDigit c \<or>
           (c = 45 \<and> (case dropWhile isWhite r of [] \<Rightarrow> False | d # _ \<Rightarrow> isDigit d))))"

definition detectSizeColumns :: "jsstring list \<Rightarrow> jsstring list" where
  "detectSizeColumns cols =
     foldl (\<lambda>sizeCols c. if c \<notin> set sizeCols \<and> sizeSuffix (trim c) then sizeCols @ [c] else sizeCols)
       (filter (\<lambda>c. list_ex (\<lambda>sc. matchesCandidate sc (trim c)) sizeCandidates) cols)
       cols"

subsection \<open>Age-group tags\<close>

definition normalizeSizeForMatching :: "jsstring \<Rightarrow> jsstring" where
  "normalizeSizeForMatching sizeStr =
     (if sizeStr = [] then []
      else filter (\<lambda>c. c \<noteq> 32)
             (replaceAround 8212 [] False
               (replaceAround 8211 [] False
                 (replaceAround 45 [] False
                   (squeeze isWhite 32 (trim (toLowerCase sizeStr)))))))"

definition patternHits :: "jsstring \<Rightarrow> jsstring \<Rightarrow> bool" where
  "patternHits pattern variant =
     (pattern = variant \<or> (3 \<le> length pattern \<and> strIncludes variant pattern))"

text \<open>
  The three nested loops of \<open>getBoyAgeGroupTags\<close>, the list of tags passed along:
  over the patterns of a group (stops at the first pattern that hits), over the
  variants (stops once the tag of the group is in the list), over the groups.
\<close>

fun scanPatterns :: "jsstring list \<Rightarrow> jsstring \<Rightarrow> jsstring \<Rightarrow> jsstring list \<Rightarrow> jsstring list" where
  "scanPatterns ageGroupTags tag variant [] = ageGroupTags"
| "scanPatterns ageGroupTags tag variant (pattern # patterns) =
     (if patternHits pattern variant
      then (if tag \<notin> set ageGroupTags then ageGroupTags @ [tag] else ageGroupTags)
      else scanPatterns ageGroupTags tag variant patterns)"

fun scanVariants :: "jsstring list \<Rightarrow> jsstring \<Rightarrow> jsstring list \<Rightarrow> jsstring list \<Rightarrow> jsstring list" where
  "scanVariants ageGroupTags tag patterns [] = ageGroupTags"
| "scanVariants ageGroupTags tag patterns (variant # variants) =
     (if variant = [] then scanVariants ageGroupTags tag patterns variants
      else if tag \<in> set (scanPatterns ageGroupTags tag variant patterns)
           then scanPatterns ageGroupTags tag variant patterns
           else scanVariants (scanPatterns ageGroupTags tag variant patterns) tag patterns variants)"

fun scanGroups :: "jsstring list \<Rightarrow> (jsstring \<times> jsstring list) list \<Rightarrow> jsstring list \<Rightarrow> jsstring list" where
  "scanGroups ageGroupTags [] normalizedVariants = ageGroupTags"
| "scanGroups ageGroupTags ((tag, patterns) # groups) normalizedVariants =
     scanGroups (scanVariants ageGroupTags tag patterns normalizedVariants) groups normalizedVariants"

definition normalizedVariants :: "jsstring list \<Rightarrow> jsstring list" where
  "normalizedVariants variants =
     map normalizeSizeForMatching (filter (\<lambda>v. v \<noteq> [] \<and> v \<noteq> str ''Default'') variants)"

definition boyAgeGroups :: "(jsstring \<times> jsstring list) list" where
  "boyAgeGroups =
    [(str ''Boy 0-3m'', map str [''nb'', ''0-2m'', ''2-4m'', ''0-3m'', ''0-6m'']),
     (str ''Boy 3-6m'', map str [''2-4m'', ''4-6m'', ''3-6m'', ''0-6m'']),
     (str ''Boy 6-12m'', map str [''6-9m'', ''6-12m'', ''9-12m'', ''0-12m'']),
     (str ''Boy 1-2y'', map str [''12-18m'', ''15-18m'', ''18-24m'', ''18m-3y'', ''1-2y'', ''1-3y'']),
     (str ''Boy 2-3y'', map str [''18m-3y'', ''1-3y'', ''2-3y'', ''2-4y'', ''2-2.5y'', ''2.5-3y'']),
     (str ''Boy 3-4y'', map str [''2-4y'', ''3-4y'', ''3-3.5y'', ''3.5-4y'']),
     (str ''Boy 4-5y'', map str [''3-4y'', ''4-5y'', ''5-6y'', ''5-7y'', ''4-4.5y'', ''4.5-5y'']),
     (str ''Boy 5+ y'', map str [''5-6y'', ''5-7y'', ''6-7y'', ''7-8y'', ''5-5.5y'', ''5.5-6y''])]"

definition girlAgeGroups :: "(jsstring \<times> jsstring list) list" where
  "girlAgeGroups =
    [(str ''Girl 0-3m'', map str [''nb'', ''0-2m'', ''2-4m'', ''0-3m'', ''0-6m'']),
     (str ''Girl 3-6m'', map str [''2-4m'', ''24m'', ''4-6m'', ''3-6m'', ''0-6m'']),
     (str ''Girl 6-12m'', map str [''6-9m'', ''6-12m'', ''9-12m'', ''0-12m'']),
     (str ''Girl 1-2y'', map str [''12-18m'', ''15-18m'', ''18-24m'', ''18m-3y'', ''1-2y'', ''1-3y'']),
     (str ''Girl 2-3y'', map str [''18m-3y'', ''1-3y'', ''13y'', ''2-3y'', ''2-4y'', ''2-2.5y'', ''2.5-3y'']),
     (str ''Girl 3-4y'', map str [''2-4y'', ''3-4y'', ''3-3.5y'', ''3.5-4y'']),
     (str ''Girl 4-5y'', map str [''3-4y'', ''4-5y'', ''5-6y'', ''5-7y'']),
     (str ''Girl 5+ y'', map str [''5-6y'', ''5-7y'', ''6-7y'', ''7-8y''])]"

definition getBoyAgeGroupTags :: "jsstring list \<Rightarrow> jsstring list" where
  "getBoyAgeGroupTags variants = scanGroups [] boyAgeGroups (normalizedVariants variants)"

definition getGirlAgeGroupTags :: "jsstring list \<Rightarrow> jsstring list" where
  "getGirlAgeGroupTags variants = scanGroups [] girlAgeGroups (normalizedVariants variants)"

section \<open>Processing one file\<close>

text \<open>
  A source record is the object built from one data row: a map from column names to cell
  texts. \<open>cellOf row c\<close> is \<open>row[c] || ""\<close>. The resolved columns of a file are kept in a
  record; a column is \<open>None\<close> when the source holds \<open>null\<close> or \<open>undefined\<close> for it, and
  \<open>ifCol\<close> is the test \<open>if (col)\<close> of the source, which the empty name fails too.
\<close>

type_synonym srcrow = "jsstring \<Rightarrow> jsstring option"

definition cellOf :: "srcrow \<Rightarrow> jsstring \<Rightarrow> jsstring" where
  "cellOf row c = (case row c of None \<Rightarrow> [] | Some v \<Rightarrow> v)"

definition ifCol :: "jsstring option \<Rightarrow> (jsstring \<Rightarrow> 'a) \<Rightarrow> 'a \<Rightarrow> 'a" where
  "ifCol col f d = (case col of None \<Rightarrow> d | Some c \<Rightarrow> if c = [] then d else f c)"

record colmap =
  cols :: "jsstring list"
  titleCol :: "jsstring option"
  brandCol :: "jsstring option"
  prodcatCol :: "jsstring option"
  subcatCol :: "jsstring option"
  subsubCol :: "jsstring option"
  seasonCol :: "jsstring option"
  campaignCol :: "jsstring option"
  sizesCol :: "jsstring option"
  costCol :: "jsstring option"
  mrpCol :: "jsstring option"
  finalCol :: "jsstring option"
  sizeChartCol :: "jsstring option"
  imageCols :: "jsstring list"
  sizeCols :: "jsstring list"

definition isNanText :: "jsstring \<Rightarrow> bool" where
  "isNanText s = (toLowerCase s = str ''nan'')"

text \<open>
  \<open>String(row[titleCol!] || "").trim()\<close>; with no header at all \<open>titleCol\<close> is \<open>undefined\<close>
  and the key read is the text \<open>undefined\<close>.
\<close>

definition titleOf :: "colmap \<Rightarrow> srcrow \<Rightarrow> jsstring" where
  "titleOf cm row =
     trim (cellOf row (case titleCol cm of None \<Rightarrow> str ''undefined'' | Some c \<Rightarrow> c))"

subsection \<open>Variants and images\<close>

definition sizeFires :: "srcrow \<Rightarrow> jsstring \<Rightarrow> bool" where
  "sizeFires row sc =
     (cellOf row sc \<noteq> [] \<and> trim (cellOf row sc) \<noteq> [] \<and> trim (cellOf row sc) \<noteq> str ''0''
      \<and> \<not> isNanText (trim (cellOf row sc)))"

definition variantsOf :: "colmap \<Rightarrow> srcrow \<Rightarrow> jsstring list" where
  "variantsOf cm row =
     (if filter (sizeFires row) (sizeCols cm) = [] then [str ''Default'']
      else map trim (filter (sizeFires row) (sizeCols cm)))"

definition pushImage :: "jsstring list \<Rightarrow> jsstring \<Rightarrow> jsstring list" where
  "pushImage images url =
     (if url \<noteq> [] \<and> \<not> isNanText url \<and> url \<notin> set images then images @ [url] else images)"

definition columnImages :: "colmap \<Rightarrow> srcrow \<Rightarrow> jsstring list" where
  "columnImages cm row = foldl (\<lambda>images ic. pushImage images (trim (cellOf row ic))) [] (imageCols cm)"

definition imagesOf :: "colmap \<Rightarrow> srcrow \<Rightarrow> jsstring list" where
  "imagesOf cm row =
     ifCol (sizeChartCol cm) (\<lambda>c. pushImage (columnImages cm row) (trim (cellOf row c)))
       (columnImages cm row)"

definition primaryImage :: "jsstring list \<Rightarrow> jsstring" where
  "primaryImage images = (case images of [] \<Rightarrow> [] | url # _ \<Rightarrow> url)"

subsection \<open>Prices\<close>

definition finalPrice :: "colmap \<Rightarrow> srcrow \<Rightarrow> jsstring" where
  "finalPrice cm row = ifCol (finalCol cm) (\<lambda>c. cleanPrice (row c)) []"

definition mrpPrice :: "colmap \<Rightarrow> srcrow \<Rightarrow> jsstring" where
  "mrpPrice cm row = ifCol (mrpCol cm) (\<lambda>c. cleanPrice (row c)) []"

definition costPrice :: "colmap \<Rightarrow> srcrow \<Rightarrow> jsstring" where
  "costPrice cm row = ifCol (costCol cm) (\<lambda>c. cleanPrice (row c)) []"

definition fallbackPriceToCost :: bool where
  "fallbackPriceToCost = True"

definition priceVal :: "colmap \<Rightarrow> srcrow \<Rightarrow> jsstring" where
  "priceVal cm row =
     (if finalPrice cm row \<noteq> [] then roundToNearest9 (finalPrice cm row)
      else if costPrice cm row \<noteq> [] \<and> fallbackPriceToCost then roundToNearest9 (costPrice cm row)
      else [])"

subsection \<open>Description and optional columns\<close>

definition descPart :: "colmap \<Rightarrow> srcrow \<Rightarrow> jsstring \<Rightarrow> jsstring list" where
  "descPart cm row p =
     ifCol (findColByNames (cols cm) [p])
       (\<lambda>colName. if cellOf row colName \<noteq> [] \<and> trim (cellOf row colName) \<noteq> []
                  then [trim (cellOf row colName)] else [])
       []"

definition descriptionOf :: "colmap \<Rightarrow> srcrow \<Rightarrow> jsstring" where
  "descriptionOf cm row =
     joinWith [10, 10]
       (concat (map (descPart cm row)
          (map str [''Product Specifcation'', ''Product Specification'', ''Product specification''])))"

definition optionalExtraCols :: "(jsstring \<times> jsstring list) list" where
  "optionalExtraCols =
    [(str ''Fabric'', map str [''Fabric'', ''Fabric (product.metafields.custom.fabric)'']),
     (str ''Wash Care'', map str [''Wash Care'', ''Wash care'',
        ''Wash Care (product.metafields.custom.wash_care)'']),
     (str ''Material'', map str [''Material'', ''Material (product.metafields.custom.material)'']),
     (str ''Shelf'', map str [''Shelf'', ''Shelf (product.metafields.custom.shelf)'']),
     (str ''Test'', map str [''Test'', ''Test (product.metafields.custom.test)'']),
     (str ''Variant Image'', map str [''Variant Image'', ''Variant image'']),
     (str ''Variant Weight Unit'', map str [''Variant Weight Unit'', ''Variant weight unit'']),
     (str ''Variant Tax Code'', map str [''Variant Tax Code'', ''Variant tax code'']),
     (str ''Shelf No'', map str [''Shelf No'', ''Shelf Number'']),
     (str ''Sizes'', map str [''Sizes'', ''Size''])]"

definition extraField :: "colmap \<Rightarrow> srcrow \<Rightarrow> jsstring \<times> jsstring list \<Rightarrow> (jsstring \<times> cell) list" where
  "extraField cm row kc =
     ifCol (findColByNames (cols cm) (snd kc))
       (\<lambda>sourceCol. [(fst kc, Str (trim (cellOf row sourceCol)))]) []"

definition extraFields :: "colmap \<Rightarrow> srcrow \<Rightarrow> (jsstring \<times> cell) list" where
  "extraFields cm row = concat (map (extraField cm row) optionalExtraCols)"

subsection \<open>Tags\<close>

definition pushValue :: "jsstring list \<Rightarrow> jsstring \<Rightarrow> jsstring list" where
  "pushValue tags v = (if v \<noteq> [] \<and> \<not> isNanText v then tags @ [v] else tags)"

definition pushCol :: "srcrow \<Rightarrow> jsstring list \<Rightarrow> jsstring option \<Rightarrow> jsstring list" where
  "pushCol row tags col = ifCol col (\<lambda>c. pushValue tags (trim (cellOf row c))) tags"

definition pushNew :: "jsstring list \<Rightarrow> jsstring \<Rightarrow> jsstring list" where
  "pushNew tags t = (if t \<in> set tags then tags else tags @ [t])"

definition isValueOne :: "jsstring option \<Rightarrow> bool" where
  "isValueOne val = (case val of
       None \<Rightarrow> False
     | Some v \<Rightarrow> trim v \<noteq> [] \<and> \<not> isNanText (trim v) \<and> parseFloat (trim v) = Fin 1 0)"

definition colNormOf :: "jsstring \<Rightarrow> jsstring" where
  "colNormOf col = toLowerCase (filter (\<lambda>c. c \<noteq> 42 \<and> c \<noteq> 43 \<and> \<not> isWhite c) col)"

definition flagTags :: "jsstring list \<Rightarrow> jsstring \<Rightarrow> jsstring list" where
  "flagTags tags colNorm =
     (if strIncludes colNorm (str ''girls'') \<and> strIncludes colNorm (str ''unisex'')
        then pushNew (pushNew tags (str ''Girl'')) (str ''Unisex'')
      else if strIncludes colNorm (str ''boys'') \<and> strIncludes colNorm (str ''unisex'')
        then pushNew (pushNew tags (str ''Boy'')) (str ''Unisex'')
      else if colNorm = str ''boy'' \<or> colNorm = str ''boys'' then pushNew tags (str ''Boy'')
      else if colNorm = str ''girl'' \<or> colNorm = str ''girls'' then pushNew tags (str ''Girl'')
      else if colNorm = str ''unisex'' then pushNew tags (str ''Unisex'')
      else if colNorm = str ''nb'' \<or> colNorm = str ''newborn'' then pushNew tags (str ''Newborn'')
      else tags)"

definition flagStep :: "srcrow \<Rightarrow> jsstring list \<Rightarrow> jsstring \<Rightarrow> jsstring list" where
  "flagStep row tags col = (if isValueOne (row col) then flagTags tags (colNormOf col) else tags)"

text \<open>
  The tags before the age groups: brand, product category and subcategory; the
  configured tag columns (the sub-subcategory twice, season, campaign, sizes); the flag
  columns, in the order of the header.
\<close>

definition roleTags :: "colmap \<Rightarrow> srcrow \<Rightarrow> jsstring list" where
  "roleTags cm row =
     foldl (pushCol row) []
       [brandCol cm, prodcatCol cm, subcatCol cm,
        subsubCol cm, subsubCol cm, seasonCol cm, campaignCol cm, sizesCol cm]"

definition flaggedTags :: "colmap \<Rightarrow> srcrow \<Rightarrow> jsstring list" where
  "flaggedTags cm row = foldl (flagStep row) (roleTags cm row) (cols cm)"

definition withBoyTags :: "jsstring list \<Rightarrow> jsstring list \<Rightarrow> jsstring list" where
  "withBoyTags variants tags =
     (if str ''Boy'' \<in> set tags then foldl pushNew tags (getBoyAgeGroupTags variants) else tags)"

definition withGirlTags :: "jsstring list \<Rightarrow> jsstring list \<Rightarrow> jsstring list" where
  "withGirlTags variants tags =
     (if str ''Girl'' \<in> set tags then foldl pushNew tags (getGirlAgeGroupTags variants) else tags)"

text \<open>\<open>Array.from(new Set(tags))\<close>: the first occurrence of each tag, in order.\<close>

fun uniq :: "jsstring list \<Rightarrow> jsstring list" where
  "uniq [] = []"
| "uniq (t # ts) = t # uniq (filter (\<lambda>u. u \<noteq> t) ts)"

definition tagList :: "colmap \<Rightarrow> srcrow \<Rightarrow> jsstring list \<Rightarrow> jsstring list" where
  "tagList cm row variants = uniq (withGirlTags variants (withBoyTags variants (flaggedTags cm row)))"

subsection \<open>The rows of a record\<close>

definition typeField :: "colmap \<Rightarrow> srcrow \<Rightarrow> (jsstring \<times> cell) list" where
  "typeField cm row =
     ifCol (subcatCol cm)
       (\<lambda>c. [(str ''Type'',
               Str (if cellOf row c \<noteq> [] then cellOf row c
                    else ifCol (subsubCol cm) (\<lambda>s. cellOf row s) []))])
       []"

definition colField :: "jsstring option \<Rightarrow> jsstring \<Rightarrow> srcrow \<Rightarrow> (jsstring \<times> cell) list" where
  "colField col k row = ifCol col (\<lambda>c. [(k, Str (cellOf row c))]) []"

text \<open>
  The assignments to \<open>out\<close> in one turn of the loop over the variants, in the order of the
  source: the fields up to the status, the two fields of the option, and the fields from
  the price on. Only the middle part depends on the variant. (\<open>SEO description\<close> reads
  \<open>out["Description"]\<close>, which no assignment after the description itself writes.)
\<close>

definition headFields :: "colmap \<Rightarrow> srcrow \<Rightarrow> jsstring list \<Rightarrow> (jsstring \<times> cell) list" where
  "headFields cm row variants =
     [(str ''Title'', Str (titleOf cm row)),
      (str ''URL handle'', Str (slugify (titleOf cm row))),
      (str ''Description'', Str (descriptionOf cm row))]
     @ extraFields cm row
     @ colField (brandCol cm) (str ''Vendor'') row
     @ colField (prodcatCol cm) (str ''Product category'') row
     @ typeField cm row
     @ [(str ''Tags'', Str (joinWith (str '', '') (tagList cm row variants))),
        (str ''Published on online store'', Str (str ''TRUE'')),
        (str ''Status'', Str (str ''Active''))]"

definition optionFields :: "jsstring \<Rightarrow> (jsstring \<times> cell) list" where
  "optionFields sz =
     [(str ''Option1 name'', Str (if sz \<noteq> str ''Default'' then str ''Size'' else [])),
      (str ''Option1 value'', Str (if sz \<noteq> str ''Default'' then sz else []))]"

definition tailFields :: "colmap \<Rightarrow> srcrow \<Rightarrow> (jsstring \<times> cell) list" where
  "tailFields cm row =
     [(str ''Price'', Str (priceVal cm row)),
      (str ''Compare-at price'', Str (mrpPrice cm row)),
      (str ''Cost per item'', Str (costPrice cm row)),
      (str ''Charge tax'', Str (str ''TRUE'')),
      (str ''Requires shipping'', Str (str ''TRUE'')),
      (str ''Fulfillment service'', Str (str ''manual'')),
      (str ''Gift card'', Str (str ''FALSE'')),
      (str ''SEO title'', Str (titleOf cm row)),
      (str ''SEO description'', Str (take 320 (descriptionOf cm row)))]
     @ colField (prodcatCol cm) (str ''Google Shopping / Google product category'') row"

definition variantFields :: "colmap \<Rightarrow> srcrow \<Rightarrow> jsstring list \<Rightarrow> jsstring \<Rightarrow> (jsstring \<times> cell) list" where
  "variantFields cm row variants sz =
     headFields cm row variants @ optionFields sz @ tailFields cm row"

definition variantRow :: "colmap \<Rightarrow> srcrow \<Rightarrow> jsstring list \<Rightarrow> jsstring \<Rightarrow> outrow" where
  "variantRow cm row variants sz = assign (variantFields cm row variants sz) blankRow"

definition withPrimaryImage :: "jsstring \<Rightarrow> outrow \<Rightarrow> outrow" where
  "withPrimaryImage url out =
     setField (str ''Image position'') (Num 1) (setField (str ''Product image URL'') (Str url) out)"

text \<open>The loop over the variants, with its flag \<open>firstVariant\<close>.\<close>

fun variantRows :: "(jsstring \<Rightarrow> outrow) \<Rightarrow> jsstring \<Rightarrow> bool \<Rightarrow> jsstring list \<Rightarrow> outrow list" where
  "variantRows mk primary firstVariant [] = []"
| "variantRows mk primary firstVariant (sz # sizes) =
     (if firstVariant \<and> primary \<noteq> []
      then withPrimaryImage primary (mk sz) # variantRows mk primary False sizes
      else mk sz # variantRows mk primary firstVariant sizes)"

definition imageRow :: "jsstring \<Rightarrow> jsstring \<Rightarrow> nat \<Rightarrow> outrow" where
  "imageRow handleBase url pos =
     assign [(str ''URL handle'', Str handleBase),
             (str ''Product image URL'', Str url),
             (str ''Image position'', Num pos)] blankRow"

text \<open>The loop \<open>for (let i = 1; i < images.length; i++)\<close> with its counter \<open>pos\<close>, over the images after the first.\<close>

fun extraImageRows :: "jsstring \<Rightarrow> nat \<Rightarrow> jsstring list \<Rightarrow> outrow list" where
  "extraImageRows handleBase pos [] = []"
| "extraImageRows handleBase pos (url # urls) =
     imageRow handleBase url pos # extraImageRows handleBase (pos + 1) urls"

definition recordRows :: "colmap \<Rightarrow> srcrow \<Rightarrow> jsstring list \<Rightarrow> jsstring list \<Rightarrow> outrow list" where
  "recordRows cm row variants images =
     variantRows (variantRow cm row variants) (primaryImage images) True variants
     @ extraImageRows (slugify (titleOf cm row)) 2 (drop 1 images)"

definition titleOk :: "colmap \<Rightarrow> srcrow \<Rightarrow> bool" where
  "titleOk cm row = (titleOf cm row \<noteq> [] \<and> \<not> isNanText (titleOf cm row))"

definition processRow :: "colmap \<Rightarrow> srcrow \<Rightarrow> outrow list" where
  "processRow cm row =
     (if \<not> titleOk cm row then []
      else recordRows cm row (variantsOf cm row) (imagesOf cm row))"

subsection \<open>Header, records and columns of a table\<close>

text \<open>
  The parser hands over the table as rows of text cells. A blank header cell gets the name
  \<open>unnamed_\<close> followed by the text of a random number; \<open>rnd i\<close> stands for the text drawn
  for the cell at index \<open>i\<close>.
\<close>

type_synonym rawtable = "jsstring list list"

fun namedCells :: "(nat \<Rightarrow> jsstring) \<Rightarrow> nat \<Rightarrow> jsstring list \<Rightarrow> jsstring list" where
  "namedCells rnd i [] = []"
| "namedCells rnd i (x # xs) =
     (if trim x = [] then str ''unnamed_'' @ rnd i else trim x) # namedCells rnd (i + 1) xs"

definition headerRow :: "(nat \<Rightarrow> jsstring) \<Rightarrow> rawtable \<Rightarrow> jsstring list" where
  "headerRow rnd rawData = namedCells rnd 0 (rawData ! detectHeaderRow rawData 8)"

text \<open>
  The object of a data row: \<open>obj[colName] = row[idx] !== undefined ? String(row[idx]) : ""\<close>
  for every header cell in turn, so a short row is filled up with empty texts and of two
  columns of one name the later one stays.
\<close>

definition mkRow :: "jsstring list \<Rightarrow> jsstring list \<Rightarrow> srcrow" where
  "mkRow header cells =
     map_of (rev (zip header (cells @ replicate (length header - length cells) [])))"

definition dataFrame :: "(nat \<Rightarrow> jsstring) \<Rightarrow> rawtable \<Rightarrow> srcrow list" where
  "dataFrame rnd rawData =
     map (mkRow (headerRow rnd rawData)) (drop (detectHeaderRow rawData 8 + 1) rawData)"

text \<open>\<open>/^\d+$/.test(s)\<close>.\<close>

definition allDigits :: "jsstring \<Rightarrow> bool" where
  "allDigits s = (s \<noteq> [] \<and> list_all isDigit s)"

text \<open>The sample of a column in the fallback for the title: its non-empty, not all-digit values in the first ten records.\<close>

definition titleSample :: "srcrow list \<Rightarrow> jsstring \<Rightarrow> jsstring list" where
  "titleSample df c = filter (\<lambda>s. s \<noteq> [] \<and> \<not> allDigits s) (map (\<lambda>r. cellOf r c) (take 10 df))"

definition firstCol :: "jsstring list \<Rightarrow> jsstring option" where
  "firstCol header = (case header of [] \<Rightarrow> None | c # _ \<Rightarrow> Some c)"

definition fallbackTitle :: "jsstring list \<Rightarrow> srcrow list \<Rightarrow> jsstring option" where
  "fallbackTitle header df =
     (case find (\<lambda>c. titleSample df c \<noteq> []) header of
        None \<Rightarrow> firstCol header
      | Some c \<Rightarrow> if c = [] then firstCol header else Some c)"

definition resolveTitle :: "jsstring list \<Rightarrow> srcrow list \<Rightarrow> jsstring option" where
  "resolveTitle header df =
     ifCol (findColByNames header (map str [''Title'', ''Product Title'', ''Name'']))
       Some (fallbackTitle header df)"

definition resolveColumns :: "jsstring list \<Rightarrow> srcrow list \<Rightarrow> colmap" where
  "resolveColumns header df =
     \<lparr> cols = header,
       titleCol = resolveTitle header df,
       brandCol = findColByNames header (map str [''Brand Name'', ''Vendor'', ''Brand'']),
       prodcatCol = findColByNames header (map str [''Product category'', ''Category'']),
       subcatCol = findColByNames header (map str [''Subcategory'', ''Sub Category'', ''Type'']),
       subsubCol = findColByNames header (map str [''Sub Sub Category'', ''SubSubCategory'']),
       seasonCol = findColByNames header (map str [''Season'']),
       campaignCol = findColByNames header (map str [''Campaign'']),
       sizesCol = findColByNames header (map str [''Sizes'', ''Size'']),
       costCol = findColByNames header (map str [''Cost to Kiddo'', ''Cost'']),
       mrpCol = findColByNames header (map str [''MRP'']),
       finalCol = findColByNames header (map str [''Selling Price'']),
       sizeChartCol = findColByNames header (map str [''Size chart'', ''Size Chart'', ''Sizechart'']),
       imageCols = detectImageColumns header,
       sizeCols = detectSizeColumns header \<rparr>"

subsection \<open>The file written\<close>

text \<open>
  What a file of the archive holds: a text, or the table handed to the writer
  \<open>Papa.unparse\<close>, a library outside this repository: the names of the columns in their
  order, and for each row the values of these columns.
\<close>

datatype blob = Text jsstring | Csv "jsstring list" "cell list list"

definition unparse :: "jsstring list \<Rightarrow> outrow list \<Rightarrow> blob" where
  "unparse fieldNames data = Csv fieldNames (map (\<lambda>out. map (getField out) fieldNames) data)"

definition outRows :: "(nat \<Rightarrow> jsstring) \<Rightarrow> rawtable \<Rightarrow> outrow list" where
  "outRows rnd rawData =
     concat (map (processRow (resolveColumns (headerRow rnd rawData) (dataFrame rnd rawData)))
                 (dataFrame rnd rawData))"

definition processTable :: "(nat \<Rightarrow> jsstring) \<Rightarrow> rawtable \<Rightarrow> blob" where
  "processTable rnd rawData =
     (if rawData = [] then Text [] else unparse TEMPLATE_COLS (outRows rnd rawData))"

section \<open>Processing a batch\<close>

text \<open>
  A file of the batch has a name and the outcome of the parser \<open>Papa.parse\<close> on it, which
  is outside this repository: the table, or the error it reports, as the text that
  \<open>${error}\<close> writes. \<open>processSingleFile\<close> rejects with that error and resolves otherwise;
  on a table of text cells no step of it throws.
\<close>

datatype parsed = ParseError jsstring | Parsed rawtable

text \<open>The record of a file is named \<open>upload\<close>.\<close>

record upload =
  name :: jsstring
  content :: parsed

definition processSingleFile :: "(nat \<Rightarrow> jsstring) \<Rightarrow> upload \<Rightarrow> jsstring + blob" where
  "processSingleFile rnd f = (case content f of
       ParseError err \<Rightarrow> Inl err
     | Parsed rawData \<Rightarrow> Inr (processTable rnd rawData))"

text \<open>
  \<open>file.name.replace(/\.[^/.]+$/, "")\<close>: the name up to its last dot, when that dot is
  followed by at least one unit and by no slash.
\<close>

definition lastExt :: "jsstring \<Rightarrow> jsstring" where
  "lastExt n = rev (takeWhile (\<lambda>c. c \<noteq> 46) (rev n))"

definition nameWithoutExt :: "jsstring \<Rightarrow> jsstring" where
  "nameWithoutExt n =
     (if 46 \<in> set n \<and> lastExt n \<noteq> [] \<and> 47 \<notin> set (lastExt n)
      then take (length n - length (lastExt n) - 1) n else n)"

definition newName :: "jsstring \<Rightarrow> jsstring" where
  "newName n = nameWithoutExt n @ str '' - Converted - Shopify.csv''"

definition errorName :: "jsstring \<Rightarrow> jsstring" where
  "errorName n = str ''ERROR_'' @ n @ str ''.txt''"

text \<open>
  The archive is the list of its entries; \<open>zip.file(n, b)\<close> replaces the entry of the
  name \<open>n\<close> if there is one and adds one otherwise.
\<close>

type_synonym archive = "(jsstring \<times> blob) list"

definition zipFile :: "jsstring \<Rightarrow> blob \<Rightarrow> archive \<Rightarrow> archive" where
  "zipFile n b entries = AList.update n b entries"

definition settle :: "(nat \<Rightarrow> jsstring) \<Rightarrow> archive \<Rightarrow> upload \<Rightarrow> archive" where
  "settle rnd entries f = (case processSingleFile rnd f of
       Inr csvContent \<Rightarrow> zipFile (newName (name f)) csvContent entries
     | Inl err \<Rightarrow> zipFile (errorName (name f)) (Text (str ''Failed to process: '' @ err)) entries)"

text \<open>
  The files of a batch are processed as concurrent tasks, each writing its entry when it
  settles. \<open>processFiles\<close> takes the files in the order in which they settle, which may
  be any order; the category does not enter the processing.
\<close>

definition processFiles :: "(nat \<Rightarrow> jsstring) \<Rightarrow> upload list \<Rightarrow> archive" where
  "processFiles rnd files = foldl (settle rnd) [] files"

section \<open>The counts of the specification, and a sample record\<close>



text \<open>The keys that a turn of the loop over the variants may write.\<close>

definition variantKeys :: "jsstring list" where
  "variantKeys = map str
     [''Title'', ''URL handle'', ''Description'',
      ''Fabric'', ''Wash Care'', ''Material'', ''Shelf'', ''Test'', ''Variant Image'',
      ''Variant Weight Unit'', ''Variant Tax Code'', ''Shelf No'', ''Sizes'',
      ''Vendor'', ''Product category'', ''Type'', ''Tags'', ''Published on online store'',
      ''Status'', ''Option1 name'', ''Option1 value'', ''Price'', ''Compare-at price'',
      ''Cost per item'', ''Charge tax'', ''Requires shipping'', ''Fulfillment service'',
      ''Gift card'', ''SEO title'', ''SEO description'',
      ''Google Shopping / Google product category'']"

text \<open>
  A header, the columns the converter resolves from it, and one record under it: a
  product with two sizes, two images and a size chart.
\<close>

definition sampleHeader :: "jsstring list" where
  "sampleHeader = map str
     [''Title'', ''Boy'', ''2-4M'', ''4-6M'', ''Image 1'', ''Image 2'', ''Size chart'',
      ''Selling Price'', ''MRP'', ''Cost'']"

definition sampleCells :: "jsstring list" where
  "sampleCells = map str
     [''Baby Romper'', ''1'', ''3'', ''5'', ''http://x/a.jpg'', ''http://x/b.jpg'',
      ''http://x/chart.jpg'', ''1,299.00'', ''1499'', ''800.50'']"

definition sampleRow :: srcrow where
  "sampleRow = mkRow sampleHeader sampleCells"

definition sampleMap :: colmap where
  "sampleMap =
     \<lparr> cols = sampleHeader,
       titleCol = Some (str ''Title''),
       brandCol = None,
       prodcatCol = None,
       subcatCol = None,
       subsubCol = None,
       seasonCol = None,
       campaignCol = None,
       sizesCol = Some (str ''Size chart''),
       costCol = Some (str ''Cost''),
       mrpCol = Some (str ''MRP''),
       finalCol = Some (str ''Selling Price''),
       sizeChartCol = Some (str ''Size chart''),
       imageCols = map str [''Image 1'', ''Image 2''],
       sizeCols = map str [''2-4M'', ''4-6M''] \<rparr>"

text \<open>A batch of two files: one that the parser fails on, and one that is empty.\<close>

definition failingFile :: upload where
  "failingFile = \<lparr> name = str ''a.csv'', content = ParseError (str ''boom'') \<rparr>"

definition emptyFile :: upload where
  "emptyFile = \<lparr> name = str ''b.csv'', content = Parsed [] \<rparr>"

definition sampleBatch :: "upload list" where
  "sampleBatch = [failingFile, emptyFile]"

text \<open>
  The test of the fallback for the title, in two wordings. \<open>hasTextValue\<close>: among the
  values of the column in the first ten records there is one that is neither empty nor
  all digits. \<open>wordedQualifies\<close>: these values are not all empty, and they are not all
  strings of digits. The table \<open>codeTable\<close> tells them apart: its column \<open>Code\<close> holds an
  empty cell and a number.
\<close>

definition hasTextValue :: "srcrow list \<Rightarrow> jsstring \<Rightarrow> bool" where
  "hasTextValue df c = list_ex (\<lambda>s. s \<noteq> [] \<and> \<not> allDigits s) (map (\<lambda>r. cellOf r c) (take 10 df))"

definition wordedQualifies :: "srcrow list \<Rightarrow> jsstring \<Rightarrow> bool" where
  "wordedQualifies df c =
     (\<not> list_all (\<lambda>s. s = []) (map (\<lambda>r. cellOf r c) (take 10 df)) \<and>
      \<not> list_all allDigits (map (\<lambda>r. cellOf r c) (take 10 df)))"

definition codeTable :: rawtable where
  "codeTable = [map str [''Code'', ''Item''], map str ['''', ''Shirt''], map str [''12'', ''Hat'']]"

section \<open>Evaluation rules\<close>

text \<open>
  The recursive functions on numbers are unfolded on numerals only, so that the
  simplifier computes with them and does not unfold them on a variable.
\<close>

lemmas bitLen_num = bitLen.simps [of 0] bitLen.simps [of 1] bitLen.simps [of "numeral k"]
  bitLen.simps [of "- numeral k"] for k

lemmas normDyadic_num = normDyadic.simps [of 0] normDyadic.simps [of 1]
  normDyadic.simps [of "numeral k"] normDyadic.simps [of "- numeral k"]
  normDyadic.simps [of "- 1"] for k

lemmas digitsOf_num = digitsOf.simps [of 0] digitsOf.simps [of 1] digitsOf.simps [of "numeral k"] for k

lemmas countdown_num = countdown.simps [of 0] countdown.simps [of 1]
  countdown.simps [of "numeral k"] countdown.simps [of "Suc n"] for k n

lemmas num_ev = roundFrac_def roundAt_def packDouble_def ilog2_def mulPow_def roundHalfEven_def
  bitLen_num normDyadic_num fracOf_def mathFloor_def jsAdd_def jsSub_def jsMul_def jsDiv_def
  isNaN_def leqZero_def mathMax0_def isInteger_def

lemmas parse_ev = parseFloat_def parseUnsigned_def parseDecimal_def exponentPart_def
  expNegative_def expDigits_def afterMantissa_def fractionDigits_def digitsVal_def
  str_def isWhite_def isDigit_def

lemmas show_ev = numToString_def renderInt_def expForm_def shortestInt_def pickBetween_def
  digitsOf_num countdown_num

lemmas price_ev = cleanPrice_def cleanDigits_def isPriceChar_def roundToNearest9_def
  nearest9_def trim_def

section \<open>Literals\<close>

lemma str_eq_iff: "str a = str b \<longleftrightarrow> a = b"
proof -
  have "inj (of_char :: char \<Rightarrow> nat)"
    by (rule injI) simp
  then show ?thesis
    by (simp add: str_def inj_map_eq_map)
qed

lemma str_Nil_iff: "str a = [] \<longleftrightarrow> a = []" "[] = str a \<longleftrightarrow> a = []"
  by (auto simp: str_def)

section \<open>Prices\<close>

lemma parseFloat_Nil: "parseFloat [] = NaN"
  by (simp add: parseFloat_def)

lemma roundToNearest9_100: "roundToNearest9 (str ''100'') = str ''99''"
  by (simp add: num_ev parse_ev show_ev price_ev)

lemma roundToNearest9_101: "roundToNearest9 (str ''101'') = str ''99''"
  by (simp add: num_ev parse_ev show_ev price_ev)

lemma roundToNearest9_150: "roundToNearest9 (str ''150'') = str ''149''"
  by (simp add: num_ev parse_ev show_ev price_ev)

lemma roundToNearest9_0: "roundToNearest9 (str ''0'') = str ''0''"
  by (simp add: num_ev parse_ev show_ev price_ev)

lemma roundToNearest9_empty: "roundToNearest9 (str '''') = str ''''"
  by (simp add: roundToNearest9_def str_def)

lemma cleanPrice_rupee: "cleanPrice (Some (8377 # str ''1,299.00'')) = str ''1299''"
  by (simp add: num_ev parse_ev show_ev price_ev)

lemma cleanPrice_decimal: "cleanPrice (Some (str ''19.95'')) = str ''19.95''"
  by (simp add: num_ev parse_ev show_ev price_ev)

text \<open>
  Claim C4, as the code has it. \<open>roundToNearest9\<close> returns the empty text when the input
  is empty or white space only; the input unchanged when no number can be read from it
  or the number read is at most zero; and otherwise the text of
  \<open>floor((price + 5) / 10) * 10 - 1\<close>, not below zero, every step in double arithmetic.
  The five examples of the specification hold.
\<close>

theorem roundToNearest9_cases:
  "(trim s = [] \<longrightarrow> roundToNearest9 s = []) \<and>
   (trim s \<noteq> [] \<and> (isNaN (parseFloat s) \<or> leqZero (parseFloat s)) \<longrightarrow> roundToNearest9 s = s) \<and>
   (trim s \<noteq> [] \<and> \<not> isNaN (parseFloat s) \<and> \<not> leqZero (parseFloat s) \<longrightarrow>
      roundToNearest9 s =
        numToString (mathMax0 (jsSub (jsMul (mathFloor (jsDiv (jsAdd (parseFloat s) 5) 10)) 10) 1))) \<and>
   roundToNearest9 (str ''100'') = str ''99'' \<and>
   roundToNearest9 (str ''101'') = str ''99'' \<and>
   roundToNearest9 (str ''150'') = str ''149'' \<and>
   roundToNearest9 (str ''0'') = str ''0'' \<and>
   roundToNearest9 (str '''') = str ''''"
proof -
  have blank: "trim s = [] \<longrightarrow> roundToNearest9 s = []"
    by (simp add: roundToNearest9_def)
  have kept: "trim s \<noteq> [] \<and> (isNaN (parseFloat s) \<or> leqZero (parseFloat s)) \<longrightarrow> roundToNearest9 s = s"
    by (auto simp: roundToNearest9_def trim_def)
  have rounded: "trim s \<noteq> [] \<and> \<not> isNaN (parseFloat s) \<and> \<not> leqZero (parseFloat s) \<longrightarrow>
      roundToNearest9 s =
        numToString (mathMax0 (jsSub (jsMul (mathFloor (jsDiv (jsAdd (parseFloat s) 5) 10)) 10) 1))"
    by (auto simp: roundToNearest9_def nearest9_def trim_def)
  from blank kept rounded show ?thesis
    using roundToNearest9_100 roundToNearest9_101 roundToNearest9_150 roundToNearest9_0
      roundToNearest9_empty by blast
qed

text \<open>
  A witness for each of the three cases: a blank, a text that is no number, and the price
  \<open>1299\<close>, which becomes \<open>1299\<close> (the floor of \<open>130.4\<close> times ten, minus one).
\<close>

theorem roundToNearest9_cases_witness:
  "trim (str '' '') = [] \<and> roundToNearest9 (str '' '') = [] \<and>
   trim (str ''abc'') \<noteq> [] \<and> isNaN (parseFloat (str ''abc'')) \<and>
   roundToNearest9 (str ''abc'') = str ''abc'' \<and>
   trim (str ''1299'') \<noteq> [] \<and> \<not> isNaN (parseFloat (str ''1299'')) \<and>
   \<not> leqZero (parseFloat (str ''1299'')) \<and>
   roundToNearest9 (str ''1299'') = str ''1299''"
proof -
  have b: "trim (str '' '') = []"
    by (simp add: trim_def str_def isWhite_def)
  have n: "trim (str ''abc'') \<noteq> [] \<and> isNaN (parseFloat (str ''abc''))"
    by (simp add: num_ev parse_ev trim_def)
  have p: "trim (str ''1299'') \<noteq> [] \<and> \<not> isNaN (parseFloat (str ''1299'')) \<and>
           \<not> leqZero (parseFloat (str ''1299''))"
    by (simp add: num_ev parse_ev trim_def)
  have v: "numToString (mathMax0 (jsSub (jsMul (mathFloor (jsDiv (jsAdd (parseFloat (str ''1299'')) 5) 10)) 10) 1))
           = str ''1299''"
    by (simp add: num_ev parse_ev show_ev)
  show ?thesis
    using b n p v roundToNearest9_cases [of "str '' ''"] roundToNearest9_cases [of "str ''abc''"]
      roundToNearest9_cases [of "str ''1299''"]
    by metis
qed

text \<open>
  Claim C4 as stated fails on a blank that is not empty: for the text of one space the
  result is the empty text, not the input.
\<close>

theorem roundToNearest9_blank_counterexample:
  "trim (str '' '') = [] \<and> roundToNearest9 (str '' '') \<noteq> str '' ''"
  by (simp add: roundToNearest9_def trim_def str_def isWhite_def)

text \<open>
  Claim C5. \<open>cleanPrice\<close> is empty for \<open>null\<close> and for a blank; otherwise it keeps the units
  \<open>[0-9.-]\<close> of the trimmed text, and returns the text of the number read from them when
  that number is whole, and the kept units themselves when it is not. The three
  examples of the specification hold.
\<close>

theorem cleanPrice_cases:
  "cleanPrice None = [] \<and>
   (trim raw = [] \<longrightarrow> cleanPrice (Some raw) = []) \<and>
   (trim raw \<noteq> [] \<and> isInteger (parseFloat (filter isPriceChar (trim raw))) \<longrightarrow>
      cleanPrice (Some raw) = numToString (parseFloat (filter isPriceChar (trim raw)))) \<and>
   (trim raw \<noteq> [] \<and> \<not> isInteger (parseFloat (filter isPriceChar (trim raw))) \<longrightarrow>
      cleanPrice (Some raw) = filter isPriceChar (trim raw)) \<and>
   cleanPrice (Some (8377 # str ''1,299.00'')) = str ''1299'' \<and>
   cleanPrice (Some (str ''19.95'')) = str ''19.95''"
proof -
  have nonint: "\<not> isInteger (parseFloat [])"
    by (simp add: parseFloat_Nil isInteger_def)
  have whole: "trim raw \<noteq> [] \<and> isInteger (parseFloat (filter isPriceChar (trim raw))) \<longrightarrow>
      cleanPrice (Some raw) = numToString (parseFloat (filter isPriceChar (trim raw)))"
    using nonint by (auto simp: cleanPrice_def cleanDigits_def)
  have frac: "trim raw \<noteq> [] \<and> \<not> isInteger (parseFloat (filter isPriceChar (trim raw))) \<longrightarrow>
      cleanPrice (Some raw) = filter isPriceChar (trim raw)"
    by (auto simp: cleanPrice_def cleanDigits_def)
  have blank: "cleanPrice None = [] \<and> (trim raw = [] \<longrightarrow> cleanPrice (Some raw) = [])"
    by (simp add: cleanPrice_def)
  from blank whole frac show ?thesis
    using cleanPrice_rupee cleanPrice_decimal by blast
qed

theorem cleanPrice_cases_witness:
  "trim (str '' '') = [] \<and> cleanPrice (Some (str '' '')) = [] \<and>
   trim (str ''12-3'') \<noteq> [] \<and> isInteger (parseFloat (filter isPriceChar (trim (str ''12-3'')))) \<and>
   cleanPrice (Some (str ''12-3'')) = str ''12'' \<and>
   trim (str ''1.5kg'') \<noteq> [] \<and> \<not> isInteger (parseFloat (filter isPriceChar (trim (str ''1.5kg'')))) \<and>
   cleanPrice (Some (str ''1.5kg'')) = str ''1.5''"
proof -
  have b: "trim (str '' '') = []"
    by (simp add: trim_def str_def isWhite_def)
  have w: "trim (str ''12-3'') \<noteq> [] \<and> isInteger (parseFloat (filter isPriceChar (trim (str ''12-3''))))
           \<and> numToString (parseFloat (filter isPriceChar (trim (str ''12-3'')))) = str ''12''"
    by (simp add: num_ev parse_ev show_ev trim_def isPriceChar_def)
  have f: "trim (str ''1.5kg'') \<noteq> [] \<and>
           \<not> isInteger (parseFloat (filter isPriceChar (trim (str ''1.5kg'')))) \<and>
           filter isPriceChar (trim (str ''1.5kg'')) = str ''1.5''"
    by (simp add: num_ev parse_ev trim_def isPriceChar_def)
  show ?thesis
    using b w f cleanPrice_cases [of "str '' ''"] cleanPrice_cases [of "str ''12-3''"]
      cleanPrice_cases [of "str ''1.5kg''"]
    by metis
qed

section \<open>The rows of a record\<close>

lemmas str_ev = str_def isWhite_def isDigit_def isLowerAZ_def trim_def toLowerCase_def lowerUnit_def

lemma length_variantRows: "length (variantRows mk primary fv vs) = length vs"
  by (induction vs arbitrary: fv) auto

lemma length_extraImageRows: "length (extraImageRows h pos urls) = length urls"
  by (induction urls arbitrary: pos) auto

lemma extraImageRows_nth:
  "i < length urls \<Longrightarrow> extraImageRows h pos urls ! i = imageRow h (urls ! i) (pos + i)"
proof (induction urls arbitrary: pos i)
  case Nil
  then show ?case by simp
next
  case (Cons u us)
  then show ?case by (cases i) auto
qed

lemma variantRows_plain: "\<not> fv \<or> primary = [] \<Longrightarrow> variantRows mk primary fv vs = map mk vs"
  by (induction vs arbitrary: fv) auto

lemma variantRows_first:
  "primary \<noteq> [] \<Longrightarrow>
   variantRows mk primary True (v # vs) = withPrimaryImage primary (mk v) # map mk vs"
  by (simp add: variantRows_plain)

lemma variantsOf_nonempty: "variantsOf cm row \<noteq> []"
  by (simp add: variantsOf_def)


lemma length_recordRows:
  "length (recordRows cm row vs imgs) = length vs + (length imgs - 1)"
  by (simp add: recordRows_def length_variantRows length_extraImageRows)


subsection \<open>The sample record\<close>

lemma sampleRow_cells:
  "sampleRow (str ''Title'') = Some (str ''Baby Romper'')"
  "sampleRow (str ''Boy'') = Some (str ''1'')"
  "sampleRow (str ''2-4M'') = Some (str ''3'')"
  "sampleRow (str ''4-6M'') = Some (str ''5'')"
  "sampleRow (str ''Image 1'') = Some (str ''http://x/a.jpg'')"
  "sampleRow (str ''Image 2'') = Some (str ''http://x/b.jpg'')"
  "sampleRow (str ''Size chart'') = Some (str ''http://x/chart.jpg'')"
  "sampleRow (str ''Selling Price'') = Some (str ''1,299.00'')"
  "sampleRow (str ''MRP'') = Some (str ''1499'')"
  "sampleRow (str ''Cost'') = Some (str ''800.50'')"
  by (simp_all add: sampleRow_def mkRow_def sampleHeader_def sampleCells_def str_def)

lemma sample_titleOk: "titleOk sampleMap sampleRow"
proof -
  have "titleOf sampleMap sampleRow = trim (str ''Baby Romper'')"
    by (simp add: titleOf_def sampleMap_def cellOf_def sampleRow_cells)
  then show ?thesis
    by (simp add: titleOk_def isNanText_def str_ev)
qed

lemma sample_fires:
  "sizeFires sampleRow (str ''2-4M'')" "sizeFires sampleRow (str ''4-6M'')"
proof -
  have "sizeFires sampleRow (str ''2-4M'') = (str ''3'' \<noteq> [] \<and> trim (str ''3'') \<noteq> []
          \<and> trim (str ''3'') \<noteq> str ''0'' \<and> \<not> isNanText (trim (str ''3'')))"
    by (simp add: sizeFires_def cellOf_def sampleRow_cells)
  then show "sizeFires sampleRow (str ''2-4M'')"
    by (simp add: isNanText_def str_ev)
  have "sizeFires sampleRow (str ''4-6M'') = (str ''5'' \<noteq> [] \<and> trim (str ''5'') \<noteq> []
          \<and> trim (str ''5'') \<noteq> str ''0'' \<and> \<not> isNanText (trim (str ''5'')))"
    by (simp add: sizeFires_def cellOf_def sampleRow_cells)
  then show "sizeFires sampleRow (str ''4-6M'')"
    by (simp add: isNanText_def str_ev)
qed

lemma sample_sizeCols: "sizeCols sampleMap = [str ''2-4M'', str ''4-6M'']"
  by (simp add: sampleMap_def)


lemma sample_variants: "variantsOf sampleMap sampleRow = [str ''2-4M'', str ''4-6M'']"
proof -
  have "trim (str ''2-4M'') = str ''2-4M''" "trim (str ''4-6M'') = str ''4-6M''"
    by (simp_all add: str_ev)
  then show ?thesis
    by (simp add: variantsOf_def sample_sizeCols sample_fires)
qed

lemma sample_urls:
  "pushImage [] (trim (str ''http://x/a.jpg'')) = [str ''http://x/a.jpg'']"
  "pushImage [str ''http://x/a.jpg''] (trim (str ''http://x/b.jpg''))
     = [str ''http://x/a.jpg'', str ''http://x/b.jpg'']"
  "pushImage [str ''http://x/a.jpg'', str ''http://x/b.jpg''] (trim (str ''http://x/chart.jpg''))
     = [str ''http://x/a.jpg'', str ''http://x/b.jpg'', str ''http://x/chart.jpg'']"
  by (simp_all add: pushImage_def isNanText_def str_ev)

lemma sample_columnImages:
  "columnImages sampleMap sampleRow = [str ''http://x/a.jpg'', str ''http://x/b.jpg'']"
proof -
  have "imageCols sampleMap = [str ''Image 1'', str ''Image 2'']"
    by (simp add: sampleMap_def)
  then show ?thesis
    by (simp add: columnImages_def cellOf_def sampleRow_cells sample_urls)
qed

lemma sample_images:
  "imagesOf sampleMap sampleRow =
     [str ''http://x/a.jpg'', str ''http://x/b.jpg'', str ''http://x/chart.jpg'']"
proof -
  have "sizeChartCol sampleMap = Some (str ''Size chart'')"
    by (simp add: sampleMap_def)
  moreover have "str ''Size chart'' \<noteq> []"
    by (simp add: str_def)
  ultimately show ?thesis
    by (simp add: imagesOf_def ifCol_def sample_columnImages cellOf_def sampleRow_cells sample_urls)
qed


section \<open>The fields of a row\<close>

lemma map_of_setField: "map_of (setField k v out) = (map_of out)(k \<mapsto> v)"
  by (simp add: setField_def update_conv')

lemma keys_setField: "k \<in> set (map fst out) \<Longrightarrow> map fst (setField k v out) = map fst out"
  by (simp add: setField_def update_keys)

lemma map_of_assign: "map_of (assign kvs out) = map_of out ++ map_of (rev kvs)"
proof (induction kvs arbitrary: out)
  case Nil
  then show ?case by simp
next
  case (Cons kv kvs)
  obtain k v where kv: "kv = (k, v)" by (cases kv)
  show ?case
    by (simp add: kv Cons.IH map_of_setField map_add_def fun_eq_iff split: option.splits)
qed

lemma keys_assign:
  "fst ` set kvs \<subseteq> set (map fst out) \<Longrightarrow> map fst (assign kvs out) = map fst out"
proof (induction kvs arbitrary: out)
  case Nil
  then show ?case by simp
next
  case (Cons kv kvs)
  obtain k v where kv: "kv = (k, v)" by (cases kv)
  from Cons.prems have k: "k \<in> set (map fst out)" and rest: "fst ` set kvs \<subseteq> set (map fst out)"
    by (auto simp: kv)
  from k have same: "map fst (setField k v out) = map fst out"
    by (rule keys_setField)
  with rest have "fst ` set kvs \<subseteq> set (map fst (setField k v out))"
    by simp
  then have "map fst (assign kvs (setField k v out)) = map fst (setField k v out)"
    by (rule Cons.IH)
  with same show ?case by (simp add: kv)
qed

lemma keys_blankRow: "map fst blankRow = TEMPLATE_COLS"
  by (simp add: blankRow_def comp_def)

lemma map_of_blankRow: "map_of blankRow k = (if k \<in> set TEMPLATE_COLS then Some (Str []) else None)"
  by (induction TEMPLATE_COLS) (auto simp: blankRow_def map_of_map_restrict restrict_map_def)

lemma getField_blankRow: "getField blankRow k = Str []"
  by (simp add: getField_def map_of_blankRow)

lemma getField_assign:
  "getField (assign kvs blankRow) k = (case map_of (rev kvs) k of None \<Rightarrow> Str [] | Some v \<Rightarrow> v)"
  using getField_blankRow [of k]
  by (simp add: getField_def map_of_assign map_add_def split: option.splits)

lemma getField_assign_miss:
  "k \<notin> fst ` set kvs \<Longrightarrow> getField (assign kvs blankRow) k = Str []"
proof -
  assume "k \<notin> fst ` set kvs"
  then have "map_of (rev kvs) k = None"
    by (simp add: map_of_eq_None_iff)
  then show ?thesis by (simp add: getField_assign)
qed

lemma getField_setField:
  "getField (setField k v out) k' = (if k' = k then v else getField out k')"
  by (simp add: getField_def map_of_setField)

lemma getField_withPrimaryImage:
  "getField (withPrimaryImage url out) k =
     (if k = str ''Image position'' then Num 1
      else if k = str ''Product image URL'' then Str url
      else getField out k)"
  by (simp add: withPrimaryImage_def getField_setField)

lemma getField_imageRow:
  "getField (imageRow h url pos) k =
     (if k = str ''Image position'' then Num pos
      else if k = str ''Product image URL'' then Str url
      else if k = str ''URL handle'' then Str h
      else Str [])"
  by (simp add: imageRow_def getField_assign str_def del: assign.simps)


subsection \<open>Which keys a variant row writes\<close>

lemma keys_colField: "fst ` set (colField col k row) \<subseteq> {k}"
  by (auto simp: colField_def ifCol_def split: option.splits if_splits)

lemma keys_typeField: "fst ` set (typeField cm row) \<subseteq> {str ''Type''}"
  by (auto simp: typeField_def ifCol_def split: option.splits if_splits)

lemma keys_extraField: "fst ` set (extraField cm row kc) \<subseteq> {fst kc}"
  by (auto simp: extraField_def ifCol_def split: option.splits if_splits)

lemma keys_extraFields: "fst ` set (extraFields cm row) \<subseteq> fst ` set optionalExtraCols"
proof
  fix k
  assume "k \<in> fst ` set (extraFields cm row)"
  then obtain kc where kc: "kc \<in> set optionalExtraCols" and k: "k \<in> fst ` set (extraField cm row kc)"
    unfolding extraFields_def by auto
  from k keys_extraField [of cm row kc] have "k = fst kc"
    by blast
  with kc show "k \<in> fst ` set optionalExtraCols"
    by blast
qed

lemma extraKeys_variantKeys: "fst ` set optionalExtraCols \<subseteq> set variantKeys"
  by (simp add: optionalExtraCols_def variantKeys_def)

lemma keys_headFields: "fst ` set (headFields cm row vs) \<subseteq> set variantKeys"
proof -
  have lit: "str ''Title'' \<in> set variantKeys" "str ''URL handle'' \<in> set variantKeys"
    "str ''Description'' \<in> set variantKeys" "str ''Vendor'' \<in> set variantKeys"
    "str ''Product category'' \<in> set variantKeys" "str ''Type'' \<in> set variantKeys"
    "str ''Tags'' \<in> set variantKeys" "str ''Published on online store'' \<in> set variantKeys"
    "str ''Status'' \<in> set variantKeys"
    by (simp_all add: variantKeys_def)
  show ?thesis
    using lit keys_extraFields [of cm row] extraKeys_variantKeys
      keys_colField [of "brandCol cm" "str ''Vendor''" row]
      keys_colField [of "prodcatCol cm" "str ''Product category''" row]
      keys_typeField [of cm row]
    by (auto simp: headFields_def image_Un)
qed

lemma keys_optionFields: "fst ` set (optionFields sz) = {str ''Option1 name'', str ''Option1 value''}"
  by (auto simp: optionFields_def)

lemma keys_optionFields_variantKeys: "fst ` set (optionFields sz) \<subseteq> set variantKeys"
  by (simp add: keys_optionFields variantKeys_def)

lemma keys_tailFields: "fst ` set (tailFields cm row) \<subseteq> set variantKeys"
proof -
  have lit: "str ''Price'' \<in> set variantKeys" "str ''Compare-at price'' \<in> set variantKeys"
    "str ''Cost per item'' \<in> set variantKeys" "str ''Charge tax'' \<in> set variantKeys"
    "str ''Requires shipping'' \<in> set variantKeys" "str ''Fulfillment service'' \<in> set variantKeys"
    "str ''Gift card'' \<in> set variantKeys" "str ''SEO title'' \<in> set variantKeys"
    "str ''SEO description'' \<in> set variantKeys"
    "str ''Google Shopping / Google product category'' \<in> set variantKeys"
    by (simp_all add: variantKeys_def)
  show ?thesis
    using lit keys_colField [of "prodcatCol cm" "str ''Google Shopping / Google product category''" row]
    by (auto simp: tailFields_def image_Un)
qed

lemma keys_variantFields: "fst ` set (variantFields cm row vs sz) \<subseteq> set variantKeys"
  using keys_headFields [of cm row vs] keys_optionFields_variantKeys [of sz] keys_tailFields [of cm row]
  by (auto simp: variantFields_def image_Un)

lemma variantKeys_template: "set variantKeys \<subseteq> set TEMPLATE_COLS"
  by (simp add: variantKeys_def TEMPLATE_COLS_def str_def)

lemma image_keys_template:
  "str ''URL handle'' \<in> set TEMPLATE_COLS" "str ''Product image URL'' \<in> set TEMPLATE_COLS"
  "str ''Image position'' \<in> set TEMPLATE_COLS"
  by (simp_all add: TEMPLATE_COLS_def str_def)

lemma image_keys_not_written:
  "str ''Product image URL'' \<notin> set variantKeys" "str ''Image position'' \<notin> set variantKeys"
  by (simp_all add: variantKeys_def str_def)

subsection \<open>Every row has the keys of the template, in its order\<close>

lemma keys_variantRow: "map fst (variantRow cm row vs sz) = TEMPLATE_COLS"
proof -
  have "fst ` set (variantFields cm row vs sz) \<subseteq> set (map fst blankRow)"
    using keys_variantFields [of cm row vs sz] variantKeys_template by (simp add: keys_blankRow)
  then show ?thesis
    by (simp add: variantRow_def keys_assign keys_blankRow)
qed

lemma keys_imageRow: "map fst (imageRow h url pos) = TEMPLATE_COLS"
proof -
  have "fst ` set [(str ''URL handle'', Str h), (str ''Product image URL'', Str url),
                   (str ''Image position'', Num pos)] \<subseteq> set (map fst blankRow)"
    using image_keys_template by (simp add: keys_blankRow)
  then show ?thesis
    unfolding imageRow_def by (simp only: keys_assign keys_blankRow)
qed

lemma keys_withPrimaryImage:
  assumes "map fst out = TEMPLATE_COLS"
  shows "map fst (withPrimaryImage url out) = TEMPLATE_COLS"
proof -
  have "map fst (setField (str ''Product image URL'') (Str url) out) = TEMPLATE_COLS"
    using assms image_keys_template by (simp add: keys_setField)
  then show ?thesis
    using image_keys_template by (simp add: withPrimaryImage_def keys_setField)
qed

lemma keys_variantRows:
  "out \<in> set (variantRows (variantRow cm row vs) primary fv sizes) \<Longrightarrow> map fst out = TEMPLATE_COLS"
  by (induction sizes arbitrary: fv)
     (auto simp: keys_variantRow keys_withPrimaryImage split: if_splits)

lemma keys_extraImageRows:
  "out \<in> set (extraImageRows h pos urls) \<Longrightarrow> map fst out = TEMPLATE_COLS"
  by (induction urls arbitrary: pos) (auto simp: keys_imageRow)

lemma keys_processRow: "out \<in> set (processRow cm row) \<Longrightarrow> map fst out = TEMPLATE_COLS"
  by (auto simp: processRow_def recordRows_def keys_variantRows keys_extraImageRows split: if_splits)

subsection \<open>The values of the fields\<close>

lemma lookup_rev_append:
  "map_of (rev (xs @ ys)) k = (case map_of (rev ys) k of None \<Rightarrow> map_of (rev xs) k | Some v \<Rightarrow> Some v)"
  by (simp add: map_add_def)

lemma lookup_rev_colField: "k \<noteq> k' \<Longrightarrow> map_of (rev (colField col k' row)) k = None"
  by (simp add: colField_def ifCol_def split: option.splits)

lemma lookup_optionFields:
  "map_of (rev (optionFields sz)) k =
     (if k = str ''Option1 value'' then Some (Str (if sz \<noteq> str ''Default'' then sz else []))
      else if k = str ''Option1 name'' then Some (Str (if sz \<noteq> str ''Default'' then str ''Size'' else []))
      else None)"
  by (simp add: optionFields_def)

lemma lookup_tailFields:
  "map_of (rev (tailFields cm row)) (str ''Price'') = Some (Str (priceVal cm row))"
  "map_of (rev (tailFields cm row)) (str ''Compare-at price'') = Some (Str (mrpPrice cm row))"
  "map_of (rev (tailFields cm row)) (str ''Cost per item'') = Some (Str (costPrice cm row))"
  "map_of (rev (tailFields cm row)) (str ''Option1 name'') = None"
  "map_of (rev (tailFields cm row)) (str ''Option1 value'') = None"
  unfolding tailFields_def lookup_rev_append
  by (simp_all add: lookup_rev_colField str_eq_iff)

lemma getField_variantRow:
  "getField (variantRow cm row vs sz) k =
     (case map_of (rev (tailFields cm row)) k of
        Some v \<Rightarrow> v
      | None \<Rightarrow> (case map_of (rev (optionFields sz)) k of
          Some v \<Rightarrow> v
        | None \<Rightarrow> (case map_of (rev (headFields cm row vs)) k of Some v \<Rightarrow> v | None \<Rightarrow> Str [])))"
  unfolding variantRow_def getField_assign variantFields_def lookup_rev_append
  by (simp split: option.splits)

lemma variantRow_option:
  "getField (variantRow cm row vs sz) (str ''Option1 name'')
     = Str (if sz \<noteq> str ''Default'' then str ''Size'' else [])"
  "getField (variantRow cm row vs sz) (str ''Option1 value'')
     = Str (if sz \<noteq> str ''Default'' then sz else [])"
  by (simp_all add: getField_variantRow lookup_tailFields lookup_optionFields str_eq_iff)


lemma variantRow_same:
  "k \<noteq> str ''Option1 name'' \<Longrightarrow> k \<noteq> str ''Option1 value'' \<Longrightarrow>
   getField (variantRow cm row vs sz) k = getField (variantRow cm row vs sz') k"
  unfolding getField_variantRow lookup_optionFields by simp

lemma variantRow_no_image:
  "getField (variantRow cm row vs sz) (str ''Product image URL'') = Str []"
  "getField (variantRow cm row vs sz) (str ''Image position'') = Str []"
  using keys_variantFields [of cm row vs sz] image_keys_not_written
  by (auto simp: variantRow_def intro!: getField_assign_miss)

subsection \<open>The rows of a record, one by one\<close>

lemma pushImage_nonempty: "[] \<notin> set images \<Longrightarrow> [] \<notin> set (pushImage images url)"
  by (auto simp: pushImage_def)

lemma columnImages_nonempty: "[] \<notin> set (columnImages cm row)"
proof -
  have "[] \<notin> set acc \<Longrightarrow>
        [] \<notin> set (foldl (\<lambda>images ic. pushImage images (trim (cellOf row ic))) acc ics)" for acc ics
    by (induction ics arbitrary: acc) (simp_all add: pushImage_nonempty)
  then show ?thesis by (simp add: columnImages_def)
qed

lemma imagesOf_nonempty: "[] \<notin> set (imagesOf cm row)"
  using columnImages_nonempty [of cm row]
  by (auto simp: imagesOf_def ifCol_def pushImage_def split: option.splits if_splits)

lemma primaryImage_nonempty: "imagesOf cm row \<noteq> [] \<Longrightarrow> primaryImage (imagesOf cm row) \<noteq> []"
  using imagesOf_nonempty [of cm row] by (cases "imagesOf cm row") (auto simp: primaryImage_def)

lemma variantRows_nth:
  assumes "j < length vs"
  shows "variantRows mk primary True vs ! j =
           (if j = 0 \<and> primary \<noteq> [] then withPrimaryImage primary (mk (vs ! 0)) else mk (vs ! j))"
proof (cases "primary = []")
  case True
  with assms show ?thesis by (simp add: variantRows_plain)
next
  case False
  from assms obtain v vs' where vs: "vs = v # vs'" by (cases vs) auto
  with False assms show ?thesis
    by (cases j) (simp_all add: variantRows_plain)
qed

lemma processRow_variant_nth:
  assumes "titleOk cm row" and "j < length (variantsOf cm row)"
  shows "processRow cm row ! j =
           (if j = 0 \<and> imagesOf cm row \<noteq> []
            then withPrimaryImage (primaryImage (imagesOf cm row))
                   (variantRow cm row (variantsOf cm row) (variantsOf cm row ! 0))
            else variantRow cm row (variantsOf cm row) (variantsOf cm row ! j))"
proof -
  have p: "(primaryImage (imagesOf cm row) \<noteq> []) = (imagesOf cm row \<noteq> [])"
    using primaryImage_nonempty [of cm row] by (auto simp: primaryImage_def)
  from assms show ?thesis
    by (simp add: processRow_def recordRows_def nth_append length_variantRows variantRows_nth p)
qed

lemma processRow_image_nth:
  assumes "titleOk cm row" and "i < length (imagesOf cm row) - 1"
  shows "processRow cm row ! (length (variantsOf cm row) + i) =
           imageRow (slugify (titleOf cm row)) (imagesOf cm row ! (i + 1)) (i + 2)"
  using assms
  by (simp add: processRow_def recordRows_def nth_append length_variantRows extraImageRows_nth)

section \<open>The claims on the rows of a record\<close>







text \<open>
  Claim C3, as the code has it. The first row of a record carries the primary image, with
  position 1, when the record has an image. Every variant row, not only the first,
  carries the two Option1 fields, for its own variant: \<open>Size\<close> and the variant, or two
  blanks for the variant \<open>Default\<close>. A later variant row carries no image and repeats
  every other field of the first row. A trailing image row carries the handle, the URL
  of its image and its position, counted from 2, and nothing else.
\<close>

theorem record_rows_shape:
  assumes "titleOk cm row"
  shows
    "(\<forall>j < length (variantsOf cm row).
        getField (processRow cm row ! j) (str ''Option1 name'') =
          Str (if variantsOf cm row ! j \<noteq> str ''Default'' then str ''Size'' else []) \<and>
        getField (processRow cm row ! j) (str ''Option1 value'') =
          Str (if variantsOf cm row ! j \<noteq> str ''Default'' then variantsOf cm row ! j else [])) \<and>
     getField (processRow cm row ! 0) (str ''Product image URL'') = Str (primaryImage (imagesOf cm row)) \<and>
     getField (processRow cm row ! 0) (str ''Image position'') =
       (if imagesOf cm row = [] then Str [] else Num 1) \<and>
     (\<forall>j. 0 < j \<and> j < length (variantsOf cm row) \<longrightarrow>
        getField (processRow cm row ! j) (str ''Product image URL'') = Str [] \<and>
        getField (processRow cm row ! j) (str ''Image position'') = Str [] \<and>
        (\<forall>k. k \<notin> {str ''Option1 name'', str ''Option1 value'',
                   str ''Product image URL'', str ''Image position''} \<longrightarrow>
             getField (processRow cm row ! j) k = getField (processRow cm row ! 0) k)) \<and>
     (\<forall>i < length (imagesOf cm row) - 1. \<forall>k.
        getField (processRow cm row ! (length (variantsOf cm row) + i)) k =
          (if k = str ''Image position'' then Num (i + 2)
           else if k = str ''Product image URL'' then Str (imagesOf cm row ! (i + 1))
           else if k = str ''URL handle'' then Str (slugify (titleOf cm row))
           else Str []))"
proof -
  let ?vs = "variantsOf cm row"
  let ?rows = "processRow cm row"
  have first: "0 < length ?vs"
    using variantsOf_nonempty [of cm row] by simp
  have opt: "\<forall>j < length ?vs.
        getField (?rows ! j) (str ''Option1 name'') =
          Str (if ?vs ! j \<noteq> str ''Default'' then str ''Size'' else []) \<and>
        getField (?rows ! j) (str ''Option1 value'') =
          Str (if ?vs ! j \<noteq> str ''Default'' then ?vs ! j else [])"
    using assms
    by (simp add: processRow_variant_nth getField_withPrimaryImage variantRow_option str_eq_iff)
  have img0: "getField (?rows ! 0) (str ''Product image URL'') = Str (primaryImage (imagesOf cm row)) \<and>
        getField (?rows ! 0) (str ''Image position'') = (if imagesOf cm row = [] then Str [] else Num 1)"
    using processRow_variant_nth [OF assms first]
    by (simp add: getField_withPrimaryImage variantRow_no_image primaryImage_def str_eq_iff)
  have later: "getField (?rows ! j) (str ''Product image URL'') = Str [] \<and>
        getField (?rows ! j) (str ''Image position'') = Str [] \<and>
        (\<forall>k. k \<notin> {str ''Option1 name'', str ''Option1 value'',
                   str ''Product image URL'', str ''Image position''} \<longrightarrow>
             getField (?rows ! j) k = getField (?rows ! 0) k)"
    if "0 < j" and "j < length ?vs" for j
  proof -
    from that have rj: "?rows ! j = variantRow cm row ?vs (?vs ! j)"
      using processRow_variant_nth [OF assms, of j] by simp
    have "getField (?rows ! j) k = getField (?rows ! 0) k"
      if "k \<notin> {str ''Option1 name'', str ''Option1 value'',
                  str ''Product image URL'', str ''Image position''}" for k
      using that processRow_variant_nth [OF assms first] variantRow_same [of k cm row ?vs "?vs ! j" "?vs ! 0"]
      by (simp add: rj getField_withPrimaryImage)
    then show ?thesis
      by (simp add: rj variantRow_no_image)
  qed
  have trail: "\<forall>i < length (imagesOf cm row) - 1. \<forall>k.
        getField (?rows ! (length ?vs + i)) k =
          (if k = str ''Image position'' then Num (i + 2)
           else if k = str ''Product image URL'' then Str (imagesOf cm row ! (i + 1))
           else if k = str ''URL handle'' then Str (slugify (titleOf cm row))
           else Str [])"
    using assms by (simp add: processRow_image_nth getField_imageRow)
  from opt img0 later trail show ?thesis by blast
qed

theorem record_rows_shape_witness:
  "titleOk sampleMap sampleRow \<and>
   0 < (1::nat) \<and> 1 < length (variantsOf sampleMap sampleRow) \<and>
   0 < length (imagesOf sampleMap sampleRow) - 1 \<and>
   getField (processRow sampleMap sampleRow ! 1) (str ''Option1 value'') = Str (str ''4-6M'') \<and>
   getField (processRow sampleMap sampleRow ! 0) (str ''Product image URL'') = Str (str ''http://x/a.jpg'') \<and>
   getField (processRow sampleMap sampleRow ! 0) (str ''Image position'') = Num 1 \<and>
   getField (processRow sampleMap sampleRow ! 1) (str ''Product image URL'') = Str [] \<and>
   getField (processRow sampleMap sampleRow ! 1) (str ''Title'')
     = getField (processRow sampleMap sampleRow ! 0) (str ''Title'') \<and>
   getField (processRow sampleMap sampleRow ! 2) (str ''Product image URL'') = Str (str ''http://x/b.jpg'') \<and>
   getField (processRow sampleMap sampleRow ! 2) (str ''Image position'') = Num 2 \<and>
   getField (processRow sampleMap sampleRow ! 2) (str ''Title'') = Str []"
proof -
  note shape = record_rows_shape [OF sample_titleOk]
  have l: "1 < length (variantsOf sampleMap sampleRow)" "length (variantsOf sampleMap sampleRow) = 2"
    by (simp_all add: sample_variants)
  have i: "0 < length (imagesOf sampleMap sampleRow) - 1"
    by (simp add: sample_images)
  have k: "str ''Title'' \<notin> {str ''Option1 name'', str ''Option1 value'',
                  str ''Product image URL'', str ''Image position''}"
    by (simp add: str_eq_iff)
  from shape l(1) have o: "getField (processRow sampleMap sampleRow ! 1) (str ''Option1 value'') =
      Str (if variantsOf sampleMap sampleRow ! 1 \<noteq> str ''Default''
           then variantsOf sampleMap sampleRow ! 1 else [])"
    by blast
  from shape have p: "getField (processRow sampleMap sampleRow ! 0) (str ''Product image URL'')
        = Str (primaryImage (imagesOf sampleMap sampleRow))"
    "getField (processRow sampleMap sampleRow ! 0) (str ''Image position'') =
       (if imagesOf sampleMap sampleRow = [] then Str [] else Num 1)"
    by blast+
  from shape l(1) k have q: "getField (processRow sampleMap sampleRow ! 1) (str ''Product image URL'') = Str []"
    "getField (processRow sampleMap sampleRow ! 1) (str ''Title'')
       = getField (processRow sampleMap sampleRow ! 0) (str ''Title'')"
    by (metis zero_less_one)+
  from shape i have t: "getField (processRow sampleMap sampleRow ! (length (variantsOf sampleMap sampleRow) + 0)) k =
          (if k = str ''Image position'' then Num (0 + 2)
           else if k = str ''Product image URL'' then Str (imagesOf sampleMap sampleRow ! (0 + 1))
           else if k = str ''URL handle'' then Str (slugify (titleOf sampleMap sampleRow))
           else Str [])" for k
    by blast
  show ?thesis
    using sample_titleOk l(1) i o p q t [of "str ''Product image URL''"] t [of "str ''Image position''"]
      t [of "str ''Title''"]
    by (simp add: l(2) sample_variants sample_images primaryImage_def str_eq_iff eval_nat_numeral)
qed

text \<open>
  Claim C3 as stated fails: in the sample record, with the two sizes \<open>2-4M\<close> and \<open>4-6M\<close>,
  the second row is not the first and carries the Option1 fields of the second size.
\<close>

theorem option1_counterexample:
  "getField (processRow sampleMap sampleRow ! 1) (str ''Option1 name'') = Str (str ''Size'') \<and>
   getField (processRow sampleMap sampleRow ! 1) (str ''Option1 value'') = Str (str ''4-6M'') \<and>
   Str (str ''4-6M'') \<noteq> Str []"
proof -
  have l: "1 < length (variantsOf sampleMap sampleRow)"
    by (simp add: sample_variants)
  from processRow_variant_nth [OF sample_titleOk l] show ?thesis
    by (simp add: sample_variants variantRow_option str_eq_iff str_Nil_iff)
qed

section \<open>The template\<close>

lemma length_TEMPLATE_COLS: "length TEMPLATE_COLS = 65"
  by (simp add: TEMPLATE_COLS_def)

lemma distinct_TEMPLATE_COLS: "distinct TEMPLATE_COLS"
proof -
  have "inj_on str A" for A
    by (rule inj_onI) (simp add: str_eq_iff)
  then have d: "distinct (map str xs) = distinct xs" for xs
    by (simp add: distinct_map)
  show ?thesis
    unfolding TEMPLATE_COLS_def d by simp
qed

lemma withPrimaryImage_assign:
  "withPrimaryImage url (assign kvs out) =
     assign (kvs @ [(str ''Product image URL'', Str url), (str ''Image position'', Num 1)]) out"
proof (induction kvs arbitrary: out)
  case Nil
  then show ?case by (simp add: withPrimaryImage_def)
next
  case (Cons kv kvs)
  then show ?case by (cases kv) simp
qed

lemma variantRows_from_blank:
  "out \<in> set (variantRows (variantRow cm row vs) primary fv sizes) \<Longrightarrow> \<exists>kvs. out = assign kvs blankRow"
proof (induction sizes arbitrary: fv)
  case Nil
  then show ?case by simp
next
  case (Cons sz sizes)
  have a: "\<exists>kvs. variantRow cm row vs sz = assign kvs blankRow"
    by (auto simp: variantRow_def)
  have b: "\<exists>kvs. withPrimaryImage primary (variantRow cm row vs sz) = assign kvs blankRow"
    unfolding variantRow_def withPrimaryImage_assign by blast
  from Cons a b show ?case
    by (auto split: if_splits)
qed

lemma extraImageRows_from_blank:
  "out \<in> set (extraImageRows h pos urls) \<Longrightarrow> \<exists>kvs. out = assign kvs blankRow"
  by (induction urls arbitrary: pos) (auto simp: imageRow_def simp del: assign.simps)

lemma processRow_from_blank:
  "out \<in> set (processRow cm row) \<Longrightarrow> \<exists>kvs. out = assign kvs blankRow"
  by (auto simp: processRow_def recordRows_def split: if_splits
      dest: variantRows_from_blank extraImageRows_from_blank)

text \<open>
  Claim C2, as the code has it. The template has 65 keys, all different. Every row starts
  as the template with the empty text at every key and is filled by assignments, so it
  has these keys in this order; and the file of a table that is not empty is written
  with these 65 columns in this order, every row giving its value at each of them. The
  columns resolved from the header do not enter. (An empty table gives the empty text.)
\<close>

theorem template_schema:
  "length TEMPLATE_COLS = 65 \<and> distinct TEMPLATE_COLS \<and>
   map fst blankRow = TEMPLATE_COLS \<and> (\<forall>k. getField blankRow k = Str []) \<and>
   (\<forall>out \<in> set (processRow cm row). (\<exists>kvs. out = assign kvs blankRow) \<and> map fst out = TEMPLATE_COLS) \<and>
   (rawData \<noteq> [] \<longrightarrow>
      processTable rnd rawData =
        Csv TEMPLATE_COLS (map (\<lambda>out. map (getField out) TEMPLATE_COLS) (outRows rnd rawData)))"
  using length_TEMPLATE_COLS distinct_TEMPLATE_COLS keys_blankRow getField_blankRow
    processRow_from_blank [of _ cm row] keys_processRow [of _ cm row]
  by (simp add: processTable_def unparse_def)

theorem template_schema_witness:
  "processRow sampleMap sampleRow ! 0 \<in> set (processRow sampleMap sampleRow) \<and>
   map fst (processRow sampleMap sampleRow ! 0) = TEMPLATE_COLS \<and>
   [sampleHeader, sampleCells] \<noteq> [] \<and>
   processTable (\<lambda>i. []) [sampleHeader, sampleCells] =
     Csv TEMPLATE_COLS (map (\<lambda>out. map (getField out) TEMPLATE_COLS)
       (outRows (\<lambda>i. []) [sampleHeader, sampleCells]))"
proof -
  have "length (processRow sampleMap sampleRow) = 4"
    by (simp add: processRow_def sample_titleOk length_recordRows sample_variants sample_images)
  then have m: "processRow sampleMap sampleRow ! 0 \<in> set (processRow sampleMap sampleRow)"
    by simp
  have n: "[sampleHeader, sampleCells] \<noteq> []"
    by simp
  show ?thesis
    using m n template_schema [of sampleMap sampleRow "[sampleHeader, sampleCells]" "\<lambda>i. []"]
    by blast
qed

text \<open>
  Claim C2 as stated fails on the number of keys, which is 65 and not 67, and on the
  file of an empty table, which is the empty text and has no columns.
\<close>

theorem template_counterexample:
  "length TEMPLATE_COLS = 65 \<and> length TEMPLATE_COLS \<noteq> 67 \<and> processTable (\<lambda>i. []) [] = Text []"
  by (simp add: length_TEMPLATE_COLS processTable_def)

section \<open>The archive of a batch\<close>
















lemma sample_outcomes:
  "processSingleFile rnd failingFile = Inl (str ''boom'')"
  "processSingleFile rnd emptyFile = Inr (Text [])"
  by (simp_all add: processSingleFile_def failingFile_def emptyFile_def processTable_def)

lemma sample_names:
  "errorName (name failingFile) = str ''ERROR_a.csv.txt''"
  "newName (name emptyFile) = str ''b - Converted - Shopify.csv''"
  by (simp_all add: errorName_def newName_def nameWithoutExt_def lastExt_def failingFile_def
      emptyFile_def str_def)

lemma sample_archive:
  "processFiles rnd sampleBatch =
     [(str ''ERROR_a.csv.txt'', Text (str ''Failed to process: boom'')),
      (str ''b - Converted - Shopify.csv'', Text [])]"
proof -
  have "str ''ERROR_a.csv.txt'' \<noteq> str ''b - Converted - Shopify.csv''"
    by (simp add: str_eq_iff)
  moreover have "str ''Failed to process: '' @ str ''boom'' = str ''Failed to process: boom''"
    by (simp add: str_def)
  ultimately show ?thesis
    by (simp add: processFiles_def sampleBatch_def settle_def sample_outcomes sample_names zipFile_def)
qed



section \<open>Tags\<close>

lemma set_pushNew: "set (pushNew tags t) = insert t (set tags)"
  by (auto simp: pushNew_def)

lemma set_foldl_pushNew: "set (foldl pushNew tags ts) = set tags \<union> set ts"
  by (induction ts arbitrary: tags) (auto simp: set_pushNew)

lemma flagTags_mono: "set tags \<subseteq> set (flagTags tags colNorm)"
  by (auto simp: flagTags_def set_pushNew)

lemma flagStep_mono: "set tags \<subseteq> set (flagStep row tags col)"
  using flagTags_mono by (auto simp: flagStep_def)

lemma foldl_flagStep_mono: "set tags \<subseteq> set (foldl (flagStep row) tags cs)"
proof (induction cs arbitrary: tags)
  case Nil
  then show ?case by simp
next
  case (Cons c cs)
  have "set tags \<subseteq> set (flagStep row tags c)"
    by (rule flagStep_mono)
  also have "\<dots> \<subseteq> set (foldl (flagStep row) (flagStep row tags c) cs)"
    by (rule Cons.IH)
  finally show ?case by simp
qed

lemma colNormOf_Boy: "colNormOf (str ''Boy'') = str ''boy''"
  by (simp add: colNormOf_def str_ev)

lemma flagTags_boy: "flagTags tags (str ''boy'') = pushNew tags (str ''Boy'')"
proof -
  have "\<not> strIncludes (str ''boy'') (str ''girls'')" "\<not> strIncludes (str ''boy'') (str ''boys'')"
    by (simp_all add: str_def)
  then show ?thesis
    by (simp add: flagTags_def)
qed

lemma flagStep_Boy:
  "isValueOne (row (str ''Boy'')) \<Longrightarrow> str ''Boy'' \<in> set (flagStep row tags (str ''Boy''))"
  by (simp add: flagStep_def colNormOf_Boy flagTags_boy set_pushNew)

lemma foldl_flagStep_Boy:
  assumes "isValueOne (row (str ''Boy''))" and "str ''Boy'' \<in> set cs"
  shows "str ''Boy'' \<in> set (foldl (flagStep row) tags cs)"
  using assms(2)
proof (induction cs arbitrary: tags)
  case Nil
  then show ?case by simp
next
  case (Cons c cs)
  show ?case
  proof (cases "c = str ''Boy''")
    case True
    have "str ''Boy'' \<in> set (flagStep row tags (str ''Boy''))"
      using assms(1) by (rule flagStep_Boy)
    then have "str ''Boy'' \<in> set (foldl (flagStep row) (flagStep row tags (str ''Boy'')) cs)"
      using foldl_flagStep_mono by blast
    with True show ?thesis by simp
  next
    case False
    with Cons.prems have "str ''Boy'' \<in> set cs" by simp
    then show ?thesis by (simp add: Cons.IH)
  qed
qed

lemma flaggedTags_Boy:
  "str ''Boy'' \<in> set (cols cm) \<Longrightarrow> isValueOne (row (str ''Boy'')) \<Longrightarrow>
   str ''Boy'' \<in> set (flaggedTags cm row)"
  by (simp add: flaggedTags_def foldl_flagStep_Boy)

subsection \<open>The age groups\<close>

lemma scanPatterns_mono: "set acc \<subseteq> set (scanPatterns acc tag v ps)"
  by (induction ps) auto

lemma scanPatterns_hit:
  "\<exists>p \<in> set ps. patternHits p v \<Longrightarrow> tag \<in> set (scanPatterns acc tag v ps)"
  by (induction ps) auto

lemma scanVariants_mono: "set acc \<subseteq> set (scanVariants acc tag ps vs)"
proof (induction vs arbitrary: acc)
  case Nil
  then show ?case by simp
next
  case (Cons v vs)
  have "set acc \<subseteq> set (scanPatterns acc tag v ps)"
    by (rule scanPatterns_mono)
  moreover have "set (scanPatterns acc tag v ps) \<subseteq> set (scanVariants (scanPatterns acc tag v ps) tag ps vs)"
    by (rule Cons.IH)
  ultimately show ?case
    using Cons.IH [of acc] by auto
qed

lemma scanVariants_hit:
  "\<exists>v \<in> set vs. v \<noteq> [] \<and> (\<exists>p \<in> set ps. patternHits p v) \<Longrightarrow>
   tag \<in> set (scanVariants acc tag ps vs)"
proof (induction vs arbitrary: acc)
  case Nil
  then show ?case by simp
next
  case (Cons v vs)
  show ?case
  proof (cases "v \<noteq> [] \<and> (\<exists>p \<in> set ps. patternHits p v)")
    case True
    then have "tag \<in> set (scanPatterns acc tag v ps)"
      by (simp add: scanPatterns_hit)
    with True show ?thesis by simp
  next
    case False
    with Cons.prems have "\<exists>v \<in> set vs. v \<noteq> [] \<and> (\<exists>p \<in> set ps. patternHits p v)"
      by auto
    then show ?thesis
      by (simp add: Cons.IH)
  qed
qed

lemma scanGroups_mono: "set acc \<subseteq> set (scanGroups acc groups nvs)"
proof (induction groups arbitrary: acc)
  case Nil
  then show ?case by simp
next
  case (Cons g groups)
  obtain tag ps where g: "g = (tag, ps)" by (cases g)
  have "set acc \<subseteq> set (scanVariants acc tag ps nvs)"
    by (rule scanVariants_mono)
  also have "\<dots> \<subseteq> set (scanGroups (scanVariants acc tag ps nvs) groups nvs)"
    by (rule Cons.IH)
  finally show ?case by (simp add: g)
qed

lemma scanGroups_hit:
  assumes "(tag, ps) \<in> set groups"
    and "\<exists>v \<in> set nvs. v \<noteq> [] \<and> (\<exists>p \<in> set ps. patternHits p v)"
  shows "tag \<in> set (scanGroups acc groups nvs)"
  using assms(1)
proof (induction groups arbitrary: acc)
  case Nil
  then show ?case by simp
next
  case (Cons g groups)
  show ?case
  proof (cases "g = (tag, ps)")
    case True
    have "tag \<in> set (scanVariants acc tag ps nvs)"
      using assms(2) by (rule scanVariants_hit)
    then have "tag \<in> set (scanGroups (scanVariants acc tag ps nvs) groups nvs)"
      using scanGroups_mono by blast
    with True show ?thesis by simp
  next
    case False
    with Cons.prems have "(tag, ps) \<in> set groups" by simp
    then show ?thesis
      by (cases g) (simp add: Cons.IH)
  qed
qed

lemma normalize_2_4M: "normalizeSizeForMatching (str ''2-4M'') = str ''2-4m''"
  by (simp add: normalizeSizeForMatching_def str_ev)

lemma normalized_2_4M:
  assumes "str ''2-4M'' \<in> set variants"
  shows "str ''2-4m'' \<in> set (normalizedVariants variants)"
proof -
  have "str ''2-4M'' \<noteq> []" "str ''2-4M'' \<noteq> str ''Default''"
    by (simp_all add: str_Nil_iff str_eq_iff)
  with assms have "str ''2-4M'' \<in> set (filter (\<lambda>v. v \<noteq> [] \<and> v \<noteq> str ''Default'') variants)"
    by simp
  then have "normalizeSizeForMatching (str ''2-4M'') \<in> set (normalizedVariants variants)"
    unfolding normalizedVariants_def by (simp only: set_map image_eqI)
  then show ?thesis by (simp add: normalize_2_4M)
qed

lemma boy_groups_of_2_4m:
  "\<exists>ps. (str ''Boy 0-3m'', ps) \<in> set boyAgeGroups \<and> str ''2-4m'' \<in> set ps"
  "\<exists>ps. (str ''Boy 3-6m'', ps) \<in> set boyAgeGroups \<and> str ''2-4m'' \<in> set ps"
proof -
  have "(str ''Boy 0-3m'', map str [''nb'', ''0-2m'', ''2-4m'', ''0-3m'', ''0-6m'']) \<in> set boyAgeGroups"
    by (simp add: boyAgeGroups_def)
  moreover have "str ''2-4m'' \<in> set (map str [''nb'', ''0-2m'', ''2-4m'', ''0-3m'', ''0-6m''])"
    by simp
  ultimately show "\<exists>ps. (str ''Boy 0-3m'', ps) \<in> set boyAgeGroups \<and> str ''2-4m'' \<in> set ps"
    by blast
  have "(str ''Boy 3-6m'', map str [''2-4m'', ''4-6m'', ''3-6m'', ''0-6m'']) \<in> set boyAgeGroups"
    by (simp add: boyAgeGroups_def)
  moreover have "str ''2-4m'' \<in> set (map str [''2-4m'', ''4-6m'', ''3-6m'', ''0-6m''])"
    by simp
  ultimately show "\<exists>ps. (str ''Boy 3-6m'', ps) \<in> set boyAgeGroups \<and> str ''2-4m'' \<in> set ps"
    by blast
qed

lemma getBoyAgeGroupTags_2_4M:
  assumes "str ''2-4M'' \<in> set variants"
  shows "str ''Boy 0-3m'' \<in> set (getBoyAgeGroupTags variants)"
    and "str ''Boy 3-6m'' \<in> set (getBoyAgeGroupTags variants)"
proof -
  have v: "str ''2-4m'' \<in> set (normalizedVariants variants)"
    using assms by (rule normalized_2_4M)
  have ne: "str ''2-4m'' \<noteq> []"
    by (simp add: str_Nil_iff)
  have hit: "\<exists>v \<in> set (normalizedVariants variants). v \<noteq> [] \<and> (\<exists>p \<in> set ps. patternHits p v)"
    if "str ''2-4m'' \<in> set ps" for ps
    using v ne that by (auto simp: patternHits_def)
  from boy_groups_of_2_4m(1) obtain ps where "(str ''Boy 0-3m'', ps) \<in> set boyAgeGroups"
    and "str ''2-4m'' \<in> set ps" by blast
  then show "str ''Boy 0-3m'' \<in> set (getBoyAgeGroupTags variants)"
    unfolding getBoyAgeGroupTags_def using hit by (simp add: scanGroups_hit)
  from boy_groups_of_2_4m(2) obtain ps where "(str ''Boy 3-6m'', ps) \<in> set boyAgeGroups"
    and "str ''2-4m'' \<in> set ps" by blast
  then show "str ''Boy 3-6m'' \<in> set (getBoyAgeGroupTags variants)"
    unfolding getBoyAgeGroupTags_def using hit by (simp add: scanGroups_hit)
qed

subsection \<open>The tag list of a record\<close>

lemma set_uniq: "set (uniq ts) = set ts"
  by (induction ts rule: uniq.induct) auto

lemma distinct_uniq: "distinct (uniq ts)"
  by (induction ts rule: uniq.induct) (auto simp: set_uniq)

lemma withBoyTags_set:
  "str ''Boy'' \<in> set tags \<Longrightarrow>
   set (withBoyTags variants tags) = set tags \<union> set (getBoyAgeGroupTags variants)"
  by (simp add: withBoyTags_def set_foldl_pushNew)

lemma withGirlTags_mono: "set tags \<subseteq> set (withGirlTags variants tags)"
  by (auto simp: withGirlTags_def set_foldl_pushNew)

lemma lookup_tail_Tags: "map_of (rev (tailFields cm row)) (str ''Tags'') = None"
  unfolding tailFields_def lookup_rev_append
  by (simp add: lookup_rev_colField str_eq_iff)

lemma lookup_head_Tags:
  "map_of (rev (headFields cm row vs)) (str ''Tags'') = Some (Str (joinWith (str '', '') (tagList cm row vs)))"
  unfolding headFields_def lookup_rev_append
  by (simp add: str_eq_iff)

lemma variantRow_Tags:
  "getField (variantRow cm row vs sz) (str ''Tags'') = Str (joinWith (str '', '') (tagList cm row vs))"
  by (simp add: getField_variantRow lookup_tail_Tags lookup_optionFields lookup_head_Tags str_eq_iff)

text \<open>
  Claim C7. For a record whose column \<open>Boy\<close> holds a value that reads as the number 1 and
  whose variants include \<open>2-4M\<close>, the tag list has \<open>Boy\<close> and the tags of the two age
  groups \<open>Boy 0-3m\<close> and \<open>Boy 3-6m\<close>; no tag occurs in it twice; and it is the list
  written, joined by a comma and a space, into the field \<open>Tags\<close> of every variant row.
\<close>

theorem boy_age_tags:
  assumes "str ''Boy'' \<in> set (cols cm)" and "isValueOne (row (str ''Boy''))"
    and "str ''2-4M'' \<in> set (variantsOf cm row)"
  shows "str ''Boy'' \<in> set (tagList cm row (variantsOf cm row)) \<and>
         str ''Boy 0-3m'' \<in> set (tagList cm row (variantsOf cm row)) \<and>
         str ''Boy 3-6m'' \<in> set (tagList cm row (variantsOf cm row)) \<and>
         distinct (tagList cm row (variantsOf cm row)) \<and>
         (titleOk cm row \<longrightarrow>
            (\<forall>j < length (variantsOf cm row).
               getField (processRow cm row ! j) (str ''Tags'') =
                 Str (joinWith (str '', '') (tagList cm row (variantsOf cm row)))))"
proof -
  let ?vs = "variantsOf cm row"
  have boy: "str ''Boy'' \<in> set (flaggedTags cm row)"
    using assms(1,2) by (rule flaggedTags_Boy)
  then have "set (withBoyTags ?vs (flaggedTags cm row))
               = set (flaggedTags cm row) \<union> set (getBoyAgeGroupTags ?vs)"
    by (rule withBoyTags_set)
  with boy getBoyAgeGroupTags_2_4M [OF assms(3)]
  have "{str ''Boy'', str ''Boy 0-3m'', str ''Boy 3-6m''} \<subseteq> set (withBoyTags ?vs (flaggedTags cm row))"
    by simp
  also have "\<dots> \<subseteq> set (withGirlTags ?vs (withBoyTags ?vs (flaggedTags cm row)))"
    by (rule withGirlTags_mono)
  finally have tags: "{str ''Boy'', str ''Boy 0-3m'', str ''Boy 3-6m''} \<subseteq> set (tagList cm row ?vs)"
    by (simp add: tagList_def set_uniq)
  have d: "distinct (tagList cm row ?vs)"
    by (simp add: tagList_def distinct_uniq)
  have field: "getField (processRow cm row ! j) (str ''Tags'') = Str (joinWith (str '', '') (tagList cm row ?vs))"
    if "titleOk cm row" and "j < length ?vs" for j
    using that by (simp add: processRow_variant_nth getField_withPrimaryImage variantRow_Tags str_eq_iff)
  from tags d field show ?thesis by simp
qed

lemma sample_Boy_flag: "isValueOne (sampleRow (str ''Boy''))"
proof -
  have "trim (str ''1'') = str ''1''"
    by (simp add: str_ev)
  moreover have "parseFloat (str ''1'') = Fin 1 0"
    by (simp add: num_ev parse_ev)
  moreover have "\<not> isNanText (str ''1'')"
    by (simp add: isNanText_def str_ev)
  ultimately show ?thesis
    by (simp add: isValueOne_def sampleRow_cells str_Nil_iff)
qed

theorem boy_age_tags_witness:
  "str ''Boy'' \<in> set (cols sampleMap) \<and> isValueOne (sampleRow (str ''Boy'')) \<and>
   str ''2-4M'' \<in> set (variantsOf sampleMap sampleRow) \<and>
   titleOk sampleMap sampleRow \<and> 0 < length (variantsOf sampleMap sampleRow) \<and>
   str ''Boy'' \<in> set (tagList sampleMap sampleRow (variantsOf sampleMap sampleRow)) \<and>
   str ''Boy 0-3m'' \<in> set (tagList sampleMap sampleRow (variantsOf sampleMap sampleRow)) \<and>
   str ''Boy 3-6m'' \<in> set (tagList sampleMap sampleRow (variantsOf sampleMap sampleRow)) \<and>
   distinct (tagList sampleMap sampleRow (variantsOf sampleMap sampleRow)) \<and>
   getField (processRow sampleMap sampleRow ! 0) (str ''Tags'') =
     Str (joinWith (str '', '') (tagList sampleMap sampleRow (variantsOf sampleMap sampleRow)))"
proof -
  have c: "str ''Boy'' \<in> set (cols sampleMap)"
    by (simp add: sampleMap_def sampleHeader_def)
  have v: "str ''2-4M'' \<in> set (variantsOf sampleMap sampleRow)"
    by (simp add: sample_variants)
  have l: "0 < length (variantsOf sampleMap sampleRow)"
    by (simp add: sample_variants)
  note t = boy_age_tags [OF c sample_Boy_flag v]
  from t sample_titleOk l
  have "getField (processRow sampleMap sampleRow ! 0) (str ''Tags'') =
     Str (joinWith (str '', '') (tagList sampleMap sampleRow (variantsOf sampleMap sampleRow)))"
    by blast
  with t c sample_Boy_flag v sample_titleOk l show ?thesis
    by blast
qed

section \<open>The fallback for the title column\<close>

lemma namedCells_nonempty: "[] \<notin> set (namedCells rnd i xs)"
  by (induction xs arbitrary: i) (auto simp: str_def)

lemma headerRow_nonempty: "[] \<notin> set (headerRow rnd rawData)"
  by (simp add: headerRow_def namedCells_nonempty)

lemma titleSample_hasTextValue: "(titleSample df c \<noteq> []) = hasTextValue df c"
  by (auto simp: titleSample_def hasTextValue_def filter_empty_conv list_ex_iff)

lemma find_cong_pred: "(\<And>x. P x = Q x) \<Longrightarrow> find P xs = find Q xs"
  by (induction xs) auto

lemma find_member: "find P xs = Some x \<Longrightarrow> x \<in> set xs"
  by (induction xs) (auto split: if_splits)

text \<open>
  Claim C8, as the code has it. When no title column is resolved from the header row of a
  file, the title column is the first header that has, among its values in the first
  ten records, at least one value that is neither empty nor all digits; when there is
  no such header, it is the first header (none, when the header row has no cell).
\<close>

theorem title_fallback:
  assumes "findColByNames (headerRow rnd rawData) (map str [''Title'', ''Product Title'', ''Name'']) = None"
  shows "titleCol (resolveColumns (headerRow rnd rawData) df) =
           (case find (hasTextValue df) (headerRow rnd rawData) of
              Some c \<Rightarrow> Some c
            | None \<Rightarrow> firstCol (headerRow rnd rawData))"
proof -
  let ?h = "headerRow rnd rawData"
  have f: "find (\<lambda>c. titleSample df c \<noteq> []) ?h = find (hasTextValue df) ?h"
    by (rule find_cong_pred) (rule titleSample_hasTextValue)
  have "titleCol (resolveColumns ?h df) = fallbackTitle ?h df"
    using assms by (simp add: resolveColumns_def resolveTitle_def ifCol_def)
  also have "\<dots> = (case find (hasTextValue df) ?h of Some c \<Rightarrow> Some c | None \<Rightarrow> firstCol ?h)"
  proof (cases "find (hasTextValue df) ?h")
    case None
    then show ?thesis by (simp add: fallbackTitle_def f)
  next
    case (Some c)
    then have "c \<in> set ?h" by (rule find_member)
    with headerRow_nonempty [of rnd rawData] have "c \<noteq> []" by auto
    with Some show ?thesis by (simp add: fallbackTitle_def f)
  qed
  finally show ?thesis .
qed

lemma codeTable_header: "headerRow rnd codeTable = [str ''Code'', str ''Item'']"
proof -
  have t: "\<not> rowHasTitle (map str [''Code'', ''Item''])" "\<not> rowHasTitle (map str ['''', ''Shirt''])"
    "\<not> rowHasTitle (map str [''12'', ''Hat''])"
    by (simp_all add: rowHasTitle_def str_ev)
  then have "detectHeaderRow codeTable 8 = 0"
    by (simp add: detectHeaderRow_def codeTable_def)
  then show ?thesis
    by (simp add: headerRow_def codeTable_def) (simp add: str_ev)
qed

lemma codeTable_rows:
  "dataFrame rnd codeTable =
     [mkRow [str ''Code'', str ''Item''] [[], str ''Shirt''],
      mkRow [str ''Code'', str ''Item''] [str ''12'', str ''Hat'']]"
proof -
  have t: "\<not> rowHasTitle (map str [''Code'', ''Item''])" "\<not> rowHasTitle (map str ['''', ''Shirt''])"
    "\<not> rowHasTitle (map str [''12'', ''Hat''])"
    by (simp_all add: rowHasTitle_def str_ev)
  then have d: "detectHeaderRow codeTable 8 = 0"
    by (simp add: detectHeaderRow_def codeTable_def)
  have "drop (0 + 1) codeTable = [[[], str ''Shirt''], [str ''12'', str ''Hat'']]"
    by (simp add: codeTable_def str_def)
  then show ?thesis
    by (simp add: dataFrame_def codeTable_header d)
qed

lemma codeTable_cells:
  "map (\<lambda>r. cellOf r (str ''Code'')) (take 10 (dataFrame rnd codeTable)) = [[], str ''12'']"
  "map (\<lambda>r. cellOf r (str ''Item'')) (take 10 (dataFrame rnd codeTable)) = [str ''Shirt'', str ''Hat'']"
  by (simp_all add: codeTable_rows mkRow_def cellOf_def str_eq_iff)

lemma codeTable_unresolved:
  "findColByNames (headerRow rnd codeTable) (map str [''Title'', ''Product Title'', ''Name'']) = None"
  by (simp add: codeTable_header findColByNames_def colsNorm_def normalizeName_def stripSpaces_def
      str_ev)

lemma codeTable_tests:
  "\<not> hasTextValue (dataFrame rnd codeTable) (str ''Code'')"
  "hasTextValue (dataFrame rnd codeTable) (str ''Item'')"
  "wordedQualifies (dataFrame rnd codeTable) (str ''Code'')"
proof -
  have d: "allDigits (str ''12'')" "\<not> allDigits (str ''Shirt'')" "\<not> allDigits []"
    by (simp_all add: allDigits_def str_def isDigit_def)
  show "\<not> hasTextValue (dataFrame rnd codeTable) (str ''Code'')"
    by (simp add: hasTextValue_def codeTable_cells d)
  show "hasTextValue (dataFrame rnd codeTable) (str ''Item'')"
    by (simp add: hasTextValue_def codeTable_cells d str_Nil_iff)
  show "wordedQualifies (dataFrame rnd codeTable) (str ''Code'')"
    by (simp add: wordedQualifies_def codeTable_cells d str_Nil_iff)
qed

theorem title_fallback_witness:
  "findColByNames (headerRow (\<lambda>i. []) codeTable) (map str [''Title'', ''Product Title'', ''Name'']) = None \<and>
   titleCol (resolveColumns (headerRow (\<lambda>i. []) codeTable) (dataFrame (\<lambda>i. []) codeTable))
     = Some (str ''Item'')"
proof -
  have u: "findColByNames (headerRow (\<lambda>i. []) codeTable)
             (map str [''Title'', ''Product Title'', ''Name'']) = None"
    by (rule codeTable_unresolved)
  have "find (hasTextValue (dataFrame (\<lambda>i. []) codeTable)) (headerRow (\<lambda>i. []) codeTable)
          = Some (str ''Item'')"
    by (simp add: codeTable_header codeTable_tests)
  with title_fallback [OF u, of "dataFrame (\<lambda>i. []) codeTable"]
  have "titleCol (resolveColumns (headerRow (\<lambda>i. []) codeTable) (dataFrame (\<lambda>i. []) codeTable))
     = Some (str ''Item'')"
    by simp
  with u show ?thesis
    by blast
qed

text \<open>
  Claim C8 as stated fails on the table \<open>codeTable\<close>. No title column is resolved from
  its header. The values of its first column \<open>Code\<close> are not all empty and not all
  strings of digits, so the first header that the claim lets qualify is \<open>Code\<close>; the
  converter takes \<open>Item\<close>.
\<close>

theorem title_fallback_counterexample:
  "findColByNames (headerRow (\<lambda>i. []) codeTable) (map str [''Title'', ''Product Title'', ''Name'']) = None \<and>
   find (wordedQualifies (dataFrame (\<lambda>i. []) codeTable)) (headerRow (\<lambda>i. []) codeTable)
     = Some (str ''Code'') \<and>
   titleCol (resolveColumns (headerRow (\<lambda>i. []) codeTable) (dataFrame (\<lambda>i. []) codeTable))
     = Some (str ''Item'') \<and>
   str ''Code'' \<noteq> str ''Item''"
proof -
  have w: "find (wordedQualifies (dataFrame (\<lambda>i. []) codeTable)) (headerRow (\<lambda>i. []) codeTable)
     = Some (str ''Code'')"
    by (simp add: codeTable_header codeTable_tests)
  have s: "titleSample (dataFrame (\<lambda>i. []) codeTable) (str ''Code'') = []"
    "titleSample (dataFrame (\<lambda>i. []) codeTable) (str ''Item'') \<noteq> []"
    using codeTable_tests(1,2) [of "\<lambda>i. []"]
      titleSample_hasTextValue [of "dataFrame (\<lambda>i. []) codeTable" "str ''Code''"]
      titleSample_hasTextValue [of "dataFrame (\<lambda>i. []) codeTable" "str ''Item''"]
    by blast+
  have u: "findColByNames (headerRow (\<lambda>i. []) codeTable)
             (map str [''Title'', ''Product Title'', ''Name'']) = None"
    by (rule codeTable_unresolved)
  have "fallbackTitle (headerRow (\<lambda>i. []) codeTable) (dataFrame (\<lambda>i. []) codeTable)
     = Some (str ''Item'')"
    by (simp add: fallbackTitle_def codeTable_header s str_Nil_iff)
  then have t: "titleCol (resolveColumns (headerRow (\<lambda>i. []) codeTable) (dataFrame (\<lambda>i. []) codeTable))
     = Some (str ''Item'')"
    using u by (simp add: resolveColumns_def resolveTitle_def ifCol_def)
  have "str ''Code'' \<noteq> str ''Item''"
    by (simp add: str_eq_iff)
  with u w t show ?thesis
    by blast
qed

end
